theory Spec2Isabelle
  imports Main "HOL-Library.Word" "HOL-Library.AList"
begin

section \<open>The photo shim of opencv\_dart: \<^verbatim>\<open>src/photo/photo_async.cpp\<close>\<close>

text \<open>
  The file holds 21 entry points. Each one wraps its body in \<^verbatim>\<open>BEGIN_WRAP\<close> ...
  \<^verbatim>\<open>END_WRAP\<close>, dereferences its input handles, calls one routine of the native
  image library, allocates the output handle(s) with \<^verbatim>\<open>new\<close> and passes them to the
  caller's callback. The embedding keeps an explicit heap of native objects and a trace of
  the two kinds of observable events (native calls and callback invocations).
\<close>

subsection \<open>Scalars, pixel data and the boundary types\<close>

type_synonym addr = nat
  \<comment> \<open>a pointer; 0 is the null pointer\<close>

type_synonym cint = "32 word"
  \<comment> \<open>C \<^verbatim>\<open>int\<close>\<close>

type_synonym cfloat = "32 word"
  \<comment> \<open>C \<^verbatim>\<open>float\<close>, as its IEEE-754 bit pattern: the shim only forwards floats\<close>

datatype pixels = Pixels (rows: nat) (cols: nat) (mtype: nat) (bytes: "8 word list")
  \<comment> \<open>the contents of a pixel buffer: shape, element type and raw bytes\<close>

definition no_pixels :: pixels where
  "no_pixels = Pixels 0 0 0 []"

definition same_shape :: "pixels \<Rightarrow> pixels \<Rightarrow> bool" where
  "same_shape p q \<longleftrightarrow> rows p = rows q \<and> cols p = cols q \<and> mtype p = mtype q"

datatype alg = Alg "32 word list"
  \<comment> \<open>the fields of a native algorithm object (exposure fusion or alignment)\<close>

text \<open>
  Modelled from the spec: the boundary types of \<^verbatim>\<open>core/types.h\<close>, which is not among
  the sources. Every handle is a structure with exactly one field, a pointer to the native
  object; a point is a pair of integer coordinates.
\<close>

datatype Mat = Mat (Mat_ptr: addr)
datatype VecMat = VecMat (VecMat_ptr: addr)
datatype MergeMertens = MergeMertens (MergeMertens_ptr: addr)
datatype AlignMTB = AlignMTB (AlignMTB_ptr: addr)
datatype Point = Point (Point_x: cint) (Point_y: cint)

datatype handle = HMat Mat | HVecMat VecMat | HMergeMertens MergeMertens | HAlignMTB AlignMTB

fun handle_ptr :: "handle \<Rightarrow> addr" where
  "handle_ptr (HMat m) = Mat_ptr m"
| "handle_ptr (HVecMat v) = VecMat_ptr v"
| "handle_ptr (HMergeMertens b) = MergeMertens_ptr b"
| "handle_ptr (HAlignMTB b) = AlignMTB_ptr b"

text \<open>
  Modelled from the spec: the callback types \<^verbatim>\<open>CvCallback_1\<close> and \<^verbatim>\<open>CvCallback_2\<close> of
  \<^verbatim>\<open>core/types.h\<close> (CB1 takes one output handle, CB2 takes two). A callback is the
  caller's function: it receives the pointers to the delivered handle structures and either
  returns or raises. What the caller does with the handles afterwards is not part of the
  shim.
\<close>

datatype exn = CvException string | Unclassified string
  \<comment> \<open>a raised condition: the native library's exception with its message, or anything else\<close>

type_synonym callback = "addr list \<Rightarrow> exn option"

datatype cb_type = CvCallback_1 | CvCallback_2

fun cb_arity :: "cb_type \<Rightarrow> nat" where
  "cb_arity CvCallback_1 = 1"
| "cb_arity CvCallback_2 = 2"

text \<open>
  Modelled from the spec: \<^verbatim>\<open>CvStatus\<close> of \<^verbatim>\<open>core/types.h\<close>. A status carries a failure
  kind, a message and the source location where the failure was detected; an entry point
  returns a pointer to it, and the null pointer (\<open>None\<close>) signals success.
\<close>

datatype kind = LibraryError | InternalError

datatype CvStatus = CvStatus (st_kind: kind) (st_msg: string) (st_file: string) (st_line: nat)

subsection \<open>The heap of native objects and the trace\<close>

text \<open>
  \<^verbatim>\<open>cv::Mat\<close> is a header that refers to a shared pixel buffer: copy-construction makes a
  new header on the same buffer, and the buffer lives as long as some header refers to it.
  Headers and buffers are therefore separate heap objects.
\<close>

datatype obj =
    OBuf pixels
      \<comment> \<open>a pixel buffer\<close>
  | OMat "addr option"
      \<comment> \<open>a \<^verbatim>\<open>cv::Mat\<close>: the buffer it refers to, if any\<close>
  | OVec "addr option list"
      \<comment> \<open>a \<^verbatim>\<open>std::vector<cv::Mat>\<close>: the headers it holds\<close>
  | OMerge alg
      \<comment> \<open>a \<^verbatim>\<open>cv::Ptr<cv::MergeMertens>\<close> with the algorithm object it owns\<close>
  | OAlign alg
      \<comment> \<open>a \<^verbatim>\<open>cv::Ptr<cv::AlignMTB>\<close> with the algorithm object it owns\<close>
  | OHandle handle
      \<comment> \<open>a handle structure made by \<^verbatim>\<open>new Mat{...}\<close> and the like\<close>

datatype arg = ARef addr | AFloat cfloat | AInt cint | ABool bool | APoint cint cint

datatype event = Native string "arg list" | Callback "addr list"

record world =
  heap :: "(addr \<times> obj) list"
  trace :: "event list"

definition lookup :: "world \<Rightarrow> addr \<Rightarrow> obj option" where
  "lookup w a = map_of (heap w) a"

fun highest :: "(addr \<times> obj) list \<Rightarrow> addr" where
  "highest [] = 0"
| "highest ((a, _) # h) = max a (highest h)"

definition fresh :: "world \<Rightarrow> addr" where
  "fresh w = Suc (highest (heap w))"

definition alloc :: "obj \<Rightarrow> world \<Rightarrow> addr \<times> world" where
  "alloc ob w = (fresh w, w\<lparr>heap := (fresh w, ob) # heap w\<rparr>)"

definition put :: "addr \<Rightarrow> obj \<Rightarrow> world \<Rightarrow> world" where
  "put a ob w = w\<lparr>heap := AList.update a ob (heap w)\<rparr>"

definition del :: "addr \<Rightarrow> world \<Rightarrow> world" where
  "del a w = w\<lparr>heap := AList.delete a (heap w)\<rparr>"

definition log_event :: "event \<Rightarrow> world \<Rightarrow> world" where
  "log_event ev w = w\<lparr>trace := trace w @ [ev]\<rparr>"

fun refers :: "obj \<Rightarrow> addr \<Rightarrow> bool" where
  "refers (OMat hdr) b = (hdr = Some b)"
| "refers (OVec hdrs) b = (Some b \<in> set hdrs)"
| "refers _ b = False"

definition referenced :: "world \<Rightarrow> addr \<Rightarrow> bool" where
  "referenced w b = list_ex (\<lambda>(a, ob). refers ob b) (heap w)"

definition drop_ref :: "addr option \<Rightarrow> world \<Rightarrow> world" where
  \<comment> \<open>a header gave up its buffer: the buffer is freed when no header refers to it any more\<close>
  "drop_ref hdr w = (case hdr of None \<Rightarrow> w
     | Some b \<Rightarrow> if referenced w b then w else del b w)"

fun hdr_pixels :: "world \<Rightarrow> addr option \<Rightarrow> pixels option" where
  "hdr_pixels w None = Some no_pixels"
| "hdr_pixels w (Some b) = (case lookup w b of Some (OBuf px) \<Rightarrow> Some px | _ \<Rightarrow> None)"

definition Mat_pixels :: "world \<Rightarrow> Mat \<Rightarrow> pixels option" where
  "Mat_pixels w m = (case lookup w (Mat_ptr m) of Some (OMat hdr) \<Rightarrow> hdr_pixels w hdr | _ \<Rightarrow> None)"

definition VecMat_pixels :: "world \<Rightarrow> VecMat \<Rightarrow> pixels list option" where
  "VecMat_pixels w v = (case lookup w (VecMat_ptr v) of
       Some (OVec hdrs) \<Rightarrow> those (map (hdr_pixels w) hdrs)
     | _ \<Rightarrow> None)"

definition MergeMertens_alg :: "world \<Rightarrow> MergeMertens \<Rightarrow> alg option" where
  "MergeMertens_alg w b = (case lookup w (MergeMertens_ptr b) of Some (OMerge a) \<Rightarrow> Some a | _ \<Rightarrow> None)"

definition AlignMTB_alg :: "world \<Rightarrow> AlignMTB \<Rightarrow> alg option" where
  "AlignMTB_alg w b = (case lookup w (AlignMTB_ptr b) of Some (OAlign a) \<Rightarrow> Some a | _ \<Rightarrow> None)"

subsection \<open>Computations: a value, a raised exception, or undefined behaviour\<close>

datatype 'a res = Val 'a | Raise exn | Undefined

type_synonym 'a comp = "world \<Rightarrow> 'a res \<times> world"

definition bnd :: "'a comp \<Rightarrow> ('a \<Rightarrow> 'b comp) \<Rightarrow> 'b comp" where
  "bnd m f w = (case m w of
       (Val x, w') \<Rightarrow> f x w'
     | (Raise e, w') \<Rightarrow> (Raise e, w')
     | (Undefined, w') \<Rightarrow> (Undefined, w'))"

definition deref :: "'a option \<Rightarrow> 'a comp" where
  \<comment> \<open>reading through a pointer that does not point to a live object of the expected type
      is undefined behaviour\<close>
  "deref v w = (case v of Some x \<Rightarrow> (Val x, w) | None \<Rightarrow> (Undefined, w))"

definition deref_Mat :: "Mat \<Rightarrow> pixels comp" where
  "deref_Mat m w = deref (Mat_pixels w m) w"

definition deref_VecMat :: "VecMat \<Rightarrow> pixels list comp" where
  "deref_VecMat v w = deref (VecMat_pixels w v) w"

definition deref_MergeMertens :: "MergeMertens \<Rightarrow> alg comp" where
  "deref_MergeMertens b w = deref (MergeMertens_alg w b) w"

definition deref_AlignMTB :: "AlignMTB \<Rightarrow> alg comp" where
  "deref_AlignMTB b w = deref (AlignMTB_alg w b) w"

definition cv :: "string \<Rightarrow> arg list \<Rightarrow> exn + 'a \<Rightarrow> 'a comp" where
  \<comment> \<open>a call of a native routine: it is recorded, and it returns or raises\<close>
  "cv name args r w = (case r of
       Inl e \<Rightarrow> (Raise e, log_event (Native name args) w)
     | Inr x \<Rightarrow> (Val x, log_event (Native name args) w))"

definition new :: "obj \<Rightarrow> addr comp" where
  "new ob w = (case alloc ob w of (a, w') \<Rightarrow> (Val a, w'))"

definition fill_local :: "pixels \<Rightarrow> addr option comp" where
  \<comment> \<open>the native routine writes its result into the empty local \<^verbatim>\<open>cv::Mat _dst\<close>:
      a new buffer, and the local header refers to it\<close>
  "fill_local px = bnd (new (OBuf px)) (\<lambda>b. (\<lambda>w. (Val (Some b), w)))"

fun fill_locals :: "pixels list \<Rightarrow> addr option list comp" where
  \<comment> \<open>the same for the elements of the local \<^verbatim>\<open>std::vector<cv::Mat> vec\<close>\<close>
  "fill_locals [] = (\<lambda>w. (Val [], w))"
| "fill_locals (px # pxs) =
     bnd (fill_local px) (\<lambda>h. bnd (fill_locals pxs) (\<lambda>hs. (\<lambda>w. (Val (h # hs), w))))"

definition store_Mat :: "Mat \<Rightarrow> pixels \<Rightarrow> unit comp" where
  \<comment> \<open>the native routine writes its result into a matrix of the caller
      (\<^verbatim>\<open>cv::Mat::create\<close>, then the pixels): a buffer of the right shape is overwritten
      in place, otherwise the header gives up its buffer and gets a new one\<close>
  "store_Mat m px w = (case lookup w (Mat_ptr m) of
       Some (OMat None) \<Rightarrow>
         (case alloc (OBuf px) w of (b, w') \<Rightarrow> (Val (), put (Mat_ptr m) (OMat (Some b)) w'))
     | Some (OMat (Some b)) \<Rightarrow>
         (case lookup w b of
            Some (OBuf old) \<Rightarrow>
              if same_shape old px then (Val (), put b (OBuf px) w)
              else (case alloc (OBuf px) w of (b', w') \<Rightarrow>
                      (Val (), drop_ref (Some b) (put (Mat_ptr m) (OMat (Some b')) w')))
          | _ \<Rightarrow> (Undefined, w))
     | _ \<Rightarrow> (Undefined, w))"

definition load_Mat :: "Mat \<Rightarrow> addr option comp" where
  \<comment> \<open>\<^verbatim>\<open>*m.ptr\<close> as the argument of the copy constructor: the header itself\<close>
  "load_Mat m w = (case lookup w (Mat_ptr m) of
       Some (OMat hdr) \<Rightarrow> (case hdr_pixels w hdr of Some _ \<Rightarrow> (Val hdr, w) | None \<Rightarrow> (Undefined, w))
     | _ \<Rightarrow> (Undefined, w))"

definition store_MergeMertens :: "MergeMertens \<Rightarrow> alg \<Rightarrow> unit comp" where
  "store_MergeMertens b a w = (Val (), put (MergeMertens_ptr b) (OMerge a) w)"

definition store_AlignMTB :: "AlignMTB \<Rightarrow> alg \<Rightarrow> unit comp" where
  "store_AlignMTB b a w = (Val (), put (AlignMTB_ptr b) (OAlign a) w)"

definition invoke :: "callback \<Rightarrow> addr list \<Rightarrow> unit comp" where
  "invoke callback hs w = (case callback hs of
       None \<Rightarrow> (Val (), log_event (Callback hs) w)
     | Some e \<Rightarrow> (Raise e, log_event (Callback hs) w))"

subsection \<open>The exception-trapping envelope\<close>

text \<open>
  Modelled from the spec: the macros \<^verbatim>\<open>BEGIN_WRAP\<close> and \<^verbatim>\<open>END_WRAP\<close> of the core
  headers, which are not among the sources. The body runs inside the envelope; when it
  completes, the entry point returns the null status; an exception of the native library
  becomes a status of kind \<open>LibraryError\<close> with the library's message, any other
  condition a status of kind \<open>InternalError\<close>, both marked with the file and line of the
  catch site (the line of \<^verbatim>\<open>END_WRAP\<close>).
\<close>

datatype ret = Returned "CvStatus option" | Crashed

definition this_file :: string where
  "this_file = ''src/photo/photo_async.cpp''"

fun status_of :: "exn \<Rightarrow> nat \<Rightarrow> CvStatus" where
  "status_of (CvException m) l = CvStatus LibraryError m this_file l"
| "status_of (Unclassified m) l = CvStatus InternalError m this_file l"

definition WRAP :: "nat \<Rightarrow> unit comp \<Rightarrow> world \<Rightarrow> ret \<times> world" where
  "WRAP l body w = (case body w of
       (Val _, w') \<Rightarrow> (Returned None, w')
     | (Raise e, w') \<Rightarrow> (Returned (Some (status_of e l)), w')
     | (Undefined, w') \<Rightarrow> (Crashed, w'))"

subsection \<open>The native image library\<close>

text \<open>
  The routines of the native library are parameters of the model. A routine reads the pixel
  contents of its input matrices and its scalars, and returns its result or raises. The two
  \<open>process\<close> methods are not \<^verbatim>\<open>const\<close>: they also return the algorithm object as they
  leave it. The \<open>default_\<close> fields are the default arguments that the library's headers
  declare; a call that omits trailing arguments passes them. The three denoising routines
  declare the same defaults for \<open>h\<close>, \<open>hColor\<close> and the two window sizes, so they share
  the fields. \<^verbatim>\<open>cv::inpaint\<close> takes its radius as a \<^verbatim>\<open>double\<close>; widening a float is
  exact, so the routine is given the float.
\<close>

record native =
  colorChange :: "pixels \<Rightarrow> pixels \<Rightarrow> cfloat \<Rightarrow> cfloat \<Rightarrow> cfloat \<Rightarrow> exn + pixels"
  seamlessClone :: "pixels \<Rightarrow> pixels \<Rightarrow> pixels \<Rightarrow> Point \<Rightarrow> cint \<Rightarrow> exn + pixels"
  illuminationChange :: "pixels \<Rightarrow> pixels \<Rightarrow> cfloat \<Rightarrow> cfloat \<Rightarrow> exn + pixels"
  textureFlattening :: "pixels \<Rightarrow> pixels \<Rightarrow> cfloat \<Rightarrow> cfloat \<Rightarrow> cint \<Rightarrow> exn + pixels"
  fastNlMeansDenoisingColoredMulti ::
    "pixels list \<Rightarrow> cint \<Rightarrow> cint \<Rightarrow> cfloat \<Rightarrow> cfloat \<Rightarrow> cint \<Rightarrow> cint \<Rightarrow> exn + pixels"
  fastNlMeansDenoising :: "pixels \<Rightarrow> cfloat \<Rightarrow> cint \<Rightarrow> cint \<Rightarrow> exn + pixels"
  fastNlMeansDenoisingColored :: "pixels \<Rightarrow> cfloat \<Rightarrow> cfloat \<Rightarrow> cint \<Rightarrow> cint \<Rightarrow> exn + pixels"
  createMergeMertens :: "cfloat \<Rightarrow> cfloat \<Rightarrow> cfloat \<Rightarrow> exn + alg"
  MergeMertens_process :: "alg \<Rightarrow> pixels list \<Rightarrow> alg \<times> (exn + pixels)"
  createAlignMTB :: "cint \<Rightarrow> cint \<Rightarrow> bool \<Rightarrow> exn + alg"
  AlignMTB_process :: "alg \<Rightarrow> pixels list \<Rightarrow> alg \<times> (exn + pixels list)"
  detailEnhance :: "pixels \<Rightarrow> cfloat \<Rightarrow> cfloat \<Rightarrow> exn + pixels"
  edgePreservingFilter :: "pixels \<Rightarrow> cint \<Rightarrow> cfloat \<Rightarrow> cfloat \<Rightarrow> exn + pixels"
  pencilSketch :: "pixels \<Rightarrow> cfloat \<Rightarrow> cfloat \<Rightarrow> cfloat \<Rightarrow> exn + pixels \<times> pixels"
  stylization :: "pixels \<Rightarrow> cfloat \<Rightarrow> cfloat \<Rightarrow> exn + pixels"
  inpaint :: "pixels \<Rightarrow> pixels \<Rightarrow> cfloat \<Rightarrow> cint \<Rightarrow> exn + pixels"
  default_h :: cfloat
  default_hColor :: cfloat
  default_templateWindowSize :: cint
  default_searchWindowSize :: cint
  default_contrast_weight :: cfloat
  default_saturation_weight :: cfloat
  default_exposure_weight :: cfloat
  default_max_bits :: cint
  default_exclude_range :: cint
  default_cut :: bool

subsection \<open>The entry points\<close>

text \<open>
  One definition per function of the file, statement by statement. The number given to
  \<open>WRAP\<close> is the line of the function's \<^verbatim>\<open>END_WRAP\<close>. The local \<^verbatim>\<open>_dst\<close> is
  written \<open>dst\<close>, and the parameters \<^verbatim>\<open>mask\<close>, \<^verbatim>\<open>filter\<close> and \<^verbatim>\<open>cut\<close> carry
  a prime. Locals are destroyed when the body is left; the model needs no step for that,
  since a local header never is the last one on its buffer. The two arguments of the
  callback in \<^verbatim>\<open>PencilSketch_Async\<close> are evaluated from left to right. An entry point
  that reads through a pointer to no live object has undefined behaviour: \<open>Crashed\<close>.
\<close>

definition ColorChange_Async ::
  "native \<Rightarrow> Mat \<Rightarrow> Mat \<Rightarrow> cfloat \<Rightarrow> cfloat \<Rightarrow> cfloat \<Rightarrow> callback \<Rightarrow> world \<Rightarrow> ret \<times> world" where
  "ColorChange_Async lib src mask' red_mul green_mul blue_mul callback =
     WRAP 11
      (bnd (deref_Mat src) (\<lambda>s. bnd (deref_Mat mask') (\<lambda>m.
       bnd (cv ''cv::colorChange''
              [ARef (Mat_ptr src), ARef (Mat_ptr mask'), AFloat red_mul, AFloat green_mul, AFloat blue_mul]
              (colorChange lib s m red_mul green_mul blue_mul)) (\<lambda>px.
       bnd (fill_local px) (\<lambda>dst.
       bnd (new (OMat dst)) (\<lambda>p. bnd (new (OHandle (HMat (Mat p)))) (\<lambda>h.
       invoke callback [h])))))))"

definition SeamlessClone_Async ::
  "native \<Rightarrow> Mat \<Rightarrow> Mat \<Rightarrow> Mat \<Rightarrow> Point \<Rightarrow> cint \<Rightarrow> callback \<Rightarrow> world \<Rightarrow> ret \<times> world" where
  "SeamlessClone_Async lib src dst mask' p flags callback =
     WRAP 20
      (bnd (deref_Mat src) (\<lambda>s. bnd (deref_Mat dst) (\<lambda>d. bnd (deref_Mat mask') (\<lambda>m.
       bnd (cv ''cv::seamlessClone''
              [ARef (Mat_ptr src), ARef (Mat_ptr dst), ARef (Mat_ptr mask'),
               APoint (Point_x p) (Point_y p), AInt flags]
              (seamlessClone lib s d m (Point (Point_x p) (Point_y p)) flags)) (\<lambda>px.
       bnd (fill_local px) (\<lambda>blend.
       bnd (new (OMat blend)) (\<lambda>q. bnd (new (OHandle (HMat (Mat q)))) (\<lambda>h.
       invoke callback [h]))))))))"

definition IlluminationChange_Async ::
  "native \<Rightarrow> Mat \<Rightarrow> Mat \<Rightarrow> cfloat \<Rightarrow> cfloat \<Rightarrow> callback \<Rightarrow> world \<Rightarrow> ret \<times> world" where
  "IlluminationChange_Async lib src mask' alpha beta callback =
     WRAP 29
      (bnd (deref_Mat src) (\<lambda>s. bnd (deref_Mat mask') (\<lambda>m.
       bnd (cv ''cv::illuminationChange''
              [ARef (Mat_ptr src), ARef (Mat_ptr mask'), AFloat alpha, AFloat beta]
              (illuminationChange lib s m alpha beta)) (\<lambda>px.
       bnd (fill_local px) (\<lambda>dst.
       bnd (new (OMat dst)) (\<lambda>p. bnd (new (OHandle (HMat (Mat p)))) (\<lambda>h.
       invoke callback [h])))))))"

definition TextureFlattening_Async ::
  "native \<Rightarrow> Mat \<Rightarrow> Mat \<Rightarrow> cfloat \<Rightarrow> cfloat \<Rightarrow> cint \<Rightarrow> callback \<Rightarrow> world \<Rightarrow> ret \<times> world" where
  "TextureFlattening_Async lib src mask' low_threshold high_threshold kernel_size callback =
     WRAP 38
      (bnd (deref_Mat src) (\<lambda>s. bnd (deref_Mat mask') (\<lambda>m.
       bnd (cv ''cv::textureFlattening''
              [ARef (Mat_ptr src), ARef (Mat_ptr mask'), AFloat low_threshold, AFloat high_threshold,
               AInt kernel_size]
              (textureFlattening lib s m low_threshold high_threshold kernel_size)) (\<lambda>px.
       bnd (fill_local px) (\<lambda>dst.
       bnd (new (OMat dst)) (\<lambda>p. bnd (new (OHandle (HMat (Mat p)))) (\<lambda>h.
       invoke callback [h])))))))"

definition FastNlMeansDenoisingColoredMulti_Async ::
  "native \<Rightarrow> VecMat \<Rightarrow> cint \<Rightarrow> cint \<Rightarrow> callback \<Rightarrow> world \<Rightarrow> ret \<times> world" where
  "FastNlMeansDenoisingColoredMulti_Async lib src imgToDenoiseIndex temporalWindowSize callback =
     WRAP 47
      (bnd (deref_VecMat src) (\<lambda>s.
       bnd (cv ''cv::fastNlMeansDenoisingColoredMulti''
              [ARef (VecMat_ptr src), AInt imgToDenoiseIndex, AInt temporalWindowSize,
               AFloat (default_h lib), AFloat (default_hColor lib),
               AInt (default_templateWindowSize lib), AInt (default_searchWindowSize lib)]
              (fastNlMeansDenoisingColoredMulti lib s imgToDenoiseIndex temporalWindowSize
                 (default_h lib) (default_hColor lib)
                 (default_templateWindowSize lib) (default_searchWindowSize lib))) (\<lambda>px.
       bnd (fill_local px) (\<lambda>dst.
       bnd (new (OMat dst)) (\<lambda>p. bnd (new (OHandle (HMat (Mat p)))) (\<lambda>h.
       invoke callback [h]))))))"

definition FastNlMeansDenoisingColoredMultiWithParams_Async ::
  "native \<Rightarrow> VecMat \<Rightarrow> cint \<Rightarrow> cint \<Rightarrow> cfloat \<Rightarrow> cfloat \<Rightarrow> cint \<Rightarrow> cint \<Rightarrow> callback
     \<Rightarrow> world \<Rightarrow> ret \<times> world" where
  "FastNlMeansDenoisingColoredMultiWithParams_Async lib src imgToDenoiseIndex temporalWindowSize
       h hColor templateWindowSize searchWindowSize callback =
     WRAP 55
      (bnd (deref_VecMat src) (\<lambda>s.
       bnd (cv ''cv::fastNlMeansDenoisingColoredMulti''
              [ARef (VecMat_ptr src), AInt imgToDenoiseIndex, AInt temporalWindowSize,
               AFloat h, AFloat hColor, AInt templateWindowSize, AInt searchWindowSize]
              (fastNlMeansDenoisingColoredMulti lib s imgToDenoiseIndex temporalWindowSize
                 h hColor templateWindowSize searchWindowSize)) (\<lambda>px.
       bnd (fill_local px) (\<lambda>dst.
       bnd (new (OMat dst)) (\<lambda>p. bnd (new (OHandle (HMat (Mat p)))) (\<lambda>h.
       invoke callback [h]))))))"

definition FastNlMeansDenoising_Async ::
  "native \<Rightarrow> Mat \<Rightarrow> callback \<Rightarrow> world \<Rightarrow> ret \<times> world" where
  "FastNlMeansDenoising_Async lib src callback =
     WRAP 64
      (bnd (deref_Mat src) (\<lambda>s.
       bnd (cv ''cv::fastNlMeansDenoising''
              [ARef (Mat_ptr src), AFloat (default_h lib),
               AInt (default_templateWindowSize lib), AInt (default_searchWindowSize lib)]
              (fastNlMeansDenoising lib s (default_h lib)
                 (default_templateWindowSize lib) (default_searchWindowSize lib))) (\<lambda>px.
       bnd (fill_local px) (\<lambda>dst.
       bnd (new (OMat dst)) (\<lambda>p. bnd (new (OHandle (HMat (Mat p)))) (\<lambda>h.
       invoke callback [h]))))))"

definition FastNlMeansDenoisingWithParams_Async ::
  "native \<Rightarrow> Mat \<Rightarrow> cfloat \<Rightarrow> cint \<Rightarrow> cint \<Rightarrow> callback \<Rightarrow> world \<Rightarrow> ret \<times> world" where
  "FastNlMeansDenoisingWithParams_Async lib src h templateWindowSize searchWindowSize callback =
     WRAP 72
      (bnd (deref_Mat src) (\<lambda>s.
       bnd (cv ''cv::fastNlMeansDenoising''
              [ARef (Mat_ptr src), AFloat h, AInt templateWindowSize, AInt searchWindowSize]
              (fastNlMeansDenoising lib s h templateWindowSize searchWindowSize)) (\<lambda>px.
       bnd (fill_local px) (\<lambda>dst.
       bnd (new (OMat dst)) (\<lambda>p. bnd (new (OHandle (HMat (Mat p)))) (\<lambda>h.
       invoke callback [h]))))))"

definition FastNlMeansDenoisingColored_Async ::
  "native \<Rightarrow> Mat \<Rightarrow> callback \<Rightarrow> world \<Rightarrow> ret \<times> world" where
  "FastNlMeansDenoisingColored_Async lib src callback =
     WRAP 81
      (bnd (deref_Mat src) (\<lambda>s.
       bnd (cv ''cv::fastNlMeansDenoisingColored''
              [ARef (Mat_ptr src), AFloat (default_h lib), AFloat (default_hColor lib),
               AInt (default_templateWindowSize lib), AInt (default_searchWindowSize lib)]
              (fastNlMeansDenoisingColored lib s (default_h lib) (default_hColor lib)
                 (default_templateWindowSize lib) (default_searchWindowSize lib))) (\<lambda>px.
       bnd (fill_local px) (\<lambda>dst.
       bnd (new (OMat dst)) (\<lambda>p. bnd (new (OHandle (HMat (Mat p)))) (\<lambda>h.
       invoke callback [h]))))))"

definition FastNlMeansDenoisingColoredWithParams_Async ::
  "native \<Rightarrow> Mat \<Rightarrow> cfloat \<Rightarrow> cfloat \<Rightarrow> cint \<Rightarrow> cint \<Rightarrow> callback \<Rightarrow> world \<Rightarrow> ret \<times> world" where
  "FastNlMeansDenoisingColoredWithParams_Async lib src h hColor templateWindowSize searchWindowSize
       callback =
     WRAP 89
      (bnd (deref_Mat src) (\<lambda>s.
       bnd (cv ''cv::fastNlMeansDenoisingColored''
              [ARef (Mat_ptr src), AFloat h, AFloat hColor, AInt templateWindowSize,
               AInt searchWindowSize]
              (fastNlMeansDenoisingColored lib s h hColor templateWindowSize searchWindowSize)) (\<lambda>px.
       bnd (fill_local px) (\<lambda>dst.
       bnd (new (OMat dst)) (\<lambda>p. bnd (new (OHandle (HMat (Mat p)))) (\<lambda>h.
       invoke callback [h]))))))"

definition MergeMertens_Create_Async :: "native \<Rightarrow> callback \<Rightarrow> world \<Rightarrow> ret \<times> world" where
  "MergeMertens_Create_Async lib callback =
     WRAP 96
      (bnd (cv ''cv::createMergeMertens''
              [AFloat (default_contrast_weight lib), AFloat (default_saturation_weight lib),
               AFloat (default_exposure_weight lib)]
              (createMergeMertens lib (default_contrast_weight lib) (default_saturation_weight lib)
                 (default_exposure_weight lib))) (\<lambda>a.
       bnd (new (OMerge a)) (\<lambda>p. bnd (new (OHandle (HMergeMertens (MergeMertens p)))) (\<lambda>h.
       invoke callback [h]))))"

definition MergeMertens_CreateWithParams_Async ::
  "native \<Rightarrow> cfloat \<Rightarrow> cfloat \<Rightarrow> cfloat \<Rightarrow> callback \<Rightarrow> world \<Rightarrow> ret \<times> world" where
  "MergeMertens_CreateWithParams_Async lib contrast_weight saturation_weight exposure_weight callback =
     WRAP 102
      (bnd (cv ''cv::createMergeMertens''
              [AFloat contrast_weight, AFloat saturation_weight, AFloat exposure_weight]
              (createMergeMertens lib contrast_weight saturation_weight exposure_weight)) (\<lambda>a.
       bnd (new (OMerge a)) (\<lambda>p. bnd (new (OHandle (HMergeMertens (MergeMertens p)))) (\<lambda>h.
       invoke callback [h]))))"

definition MergeMertens_Process_Async ::
  "native \<Rightarrow> MergeMertens \<Rightarrow> VecMat \<Rightarrow> callback \<Rightarrow> world \<Rightarrow> ret \<times> world" where
  "MergeMertens_Process_Async lib b src callback =
     WRAP 110
      (bnd (deref_MergeMertens b) (\<lambda>a. bnd (deref_VecMat src) (\<lambda>s.
       bnd (store_MergeMertens b (fst (MergeMertens_process lib a s))) (\<lambda>_.
       bnd (cv ''cv::MergeMertens::process'' [ARef (MergeMertens_ptr b), ARef (VecMat_ptr src)]
              (snd (MergeMertens_process lib a s))) (\<lambda>px.
       bnd (fill_local px) (\<lambda>dst.
       bnd (new (OMat dst)) (\<lambda>p. bnd (new (OHandle (HMat (Mat p)))) (\<lambda>h.
       invoke callback [h]))))))))"

definition AlignMTB_Create_Async :: "native \<Rightarrow> callback \<Rightarrow> world \<Rightarrow> ret \<times> world" where
  "AlignMTB_Create_Async lib callback =
     WRAP 117
      (bnd (cv ''cv::createAlignMTB''
              [AInt (default_max_bits lib), AInt (default_exclude_range lib), ABool (default_cut lib)]
              (createAlignMTB lib (default_max_bits lib) (default_exclude_range lib)
                 (default_cut lib))) (\<lambda>a.
       bnd (new (OAlign a)) (\<lambda>p. bnd (new (OHandle (HAlignMTB (AlignMTB p)))) (\<lambda>h.
       invoke callback [h]))))"

definition AlignMTB_CreateWithParams_Async ::
  "native \<Rightarrow> cint \<Rightarrow> cint \<Rightarrow> bool \<Rightarrow> callback \<Rightarrow> world \<Rightarrow> ret \<times> world" where
  "AlignMTB_CreateWithParams_Async lib max_bits exclude_range cut' callback =
     WRAP 123
      (bnd (cv ''cv::createAlignMTB'' [AInt max_bits, AInt exclude_range, ABool cut']
              (createAlignMTB lib max_bits exclude_range cut')) (\<lambda>a.
       bnd (new (OAlign a)) (\<lambda>p. bnd (new (OHandle (HAlignMTB (AlignMTB p)))) (\<lambda>h.
       invoke callback [h]))))"

definition AlignMTB_Process_Async ::
  "native \<Rightarrow> AlignMTB \<Rightarrow> VecMat \<Rightarrow> callback \<Rightarrow> world \<Rightarrow> ret \<times> world" where
  "AlignMTB_Process_Async lib b src callback =
     WRAP 131
      (bnd (deref_AlignMTB b) (\<lambda>a. bnd (deref_VecMat src) (\<lambda>s.
       bnd (store_AlignMTB b (fst (AlignMTB_process lib a s))) (\<lambda>_.
       bnd (cv ''cv::AlignMTB::process'' [ARef (AlignMTB_ptr b), ARef (VecMat_ptr src)]
              (snd (AlignMTB_process lib a s))) (\<lambda>pxs.
       bnd (fill_locals pxs) (\<lambda>vec.
       bnd (new (OVec vec)) (\<lambda>p. bnd (new (OHandle (HVecMat (VecMat p)))) (\<lambda>h.
       invoke callback [h]))))))))"

definition DetailEnhance_Async ::
  "native \<Rightarrow> Mat \<Rightarrow> cfloat \<Rightarrow> cfloat \<Rightarrow> callback \<Rightarrow> world \<Rightarrow> ret \<times> world" where
  "DetailEnhance_Async lib src sigma_s sigma_r callback =
     WRAP 140
      (bnd (deref_Mat src) (\<lambda>s.
       bnd (cv ''cv::detailEnhance'' [ARef (Mat_ptr src), AFloat sigma_s, AFloat sigma_r]
              (detailEnhance lib s sigma_s sigma_r)) (\<lambda>px.
       bnd (fill_local px) (\<lambda>dst.
       bnd (new (OMat dst)) (\<lambda>p. bnd (new (OHandle (HMat (Mat p)))) (\<lambda>h.
       invoke callback [h]))))))"

definition EdgePreservingFilter_Async ::
  "native \<Rightarrow> Mat \<Rightarrow> cint \<Rightarrow> cfloat \<Rightarrow> cfloat \<Rightarrow> callback \<Rightarrow> world \<Rightarrow> ret \<times> world" where
  "EdgePreservingFilter_Async lib src filter' sigma_s sigma_r callback =
     WRAP 149
      (bnd (deref_Mat src) (\<lambda>s.
       bnd (cv ''cv::edgePreservingFilter''
              [ARef (Mat_ptr src), AInt filter', AFloat sigma_s, AFloat sigma_r]
              (edgePreservingFilter lib s filter' sigma_s sigma_r)) (\<lambda>px.
       bnd (fill_local px) (\<lambda>dst.
       bnd (new (OMat dst)) (\<lambda>p. bnd (new (OHandle (HMat (Mat p)))) (\<lambda>h.
       invoke callback [h]))))))"

definition PencilSketch_Async ::
  "native \<Rightarrow> Mat \<Rightarrow> Mat \<Rightarrow> Mat \<Rightarrow> cfloat \<Rightarrow> cfloat \<Rightarrow> cfloat \<Rightarrow> callback \<Rightarrow> world \<Rightarrow> ret \<times> world" where
  "PencilSketch_Async lib src dst1 dst2 sigma_s sigma_r shade_factor callback =
     WRAP 157
      (bnd (deref_Mat src) (\<lambda>s. bnd (load_Mat dst1) (\<lambda>_. bnd (load_Mat dst2) (\<lambda>_.
       bnd (cv ''cv::pencilSketch''
              [ARef (Mat_ptr src), ARef (Mat_ptr dst1), ARef (Mat_ptr dst2),
               AFloat sigma_s, AFloat sigma_r, AFloat shade_factor]
              (pencilSketch lib s sigma_s sigma_r shade_factor)) (\<lambda>(px1, px2).
       bnd (store_Mat dst1 px1) (\<lambda>_. bnd (store_Mat dst2 px2) (\<lambda>_.
       bnd (load_Mat dst1) (\<lambda>d1. bnd (new (OMat d1)) (\<lambda>p1. bnd (new (OHandle (HMat (Mat p1)))) (\<lambda>h1.
       bnd (load_Mat dst2) (\<lambda>d2. bnd (new (OMat d2)) (\<lambda>p2. bnd (new (OHandle (HMat (Mat p2)))) (\<lambda>h2.
       invoke callback [h1, h2])))))))))))))"

definition Stylization_Async ::
  "native \<Rightarrow> Mat \<Rightarrow> cfloat \<Rightarrow> cfloat \<Rightarrow> callback \<Rightarrow> world \<Rightarrow> ret \<times> world" where
  "Stylization_Async lib src sigma_s sigma_r callback =
     WRAP 166
      (bnd (deref_Mat src) (\<lambda>s.
       bnd (cv ''cv::stylization'' [ARef (Mat_ptr src), AFloat sigma_s, AFloat sigma_r]
              (stylization lib s sigma_s sigma_r)) (\<lambda>px.
       bnd (fill_local px) (\<lambda>dst.
       bnd (new (OMat dst)) (\<lambda>p. bnd (new (OHandle (HMat (Mat p)))) (\<lambda>h.
       invoke callback [h]))))))"

definition PhotoInpaint_Async ::
  "native \<Rightarrow> Mat \<Rightarrow> Mat \<Rightarrow> cfloat \<Rightarrow> cint \<Rightarrow> callback \<Rightarrow> world \<Rightarrow> ret \<times> world" where
  "PhotoInpaint_Async lib src mask' inpaint_radius algorithm_type callback =
     WRAP 175
      (bnd (deref_Mat src) (\<lambda>s. bnd (deref_Mat mask') (\<lambda>m.
       bnd (cv ''cv::inpaint''
              [ARef (Mat_ptr src), ARef (Mat_ptr mask'), AFloat inpaint_radius, AInt algorithm_type]
              (inpaint lib s m inpaint_radius algorithm_type)) (\<lambda>px.
       bnd (fill_local px) (\<lambda>dst.
       bnd (new (OMat dst)) (\<lambda>p. bnd (new (OHandle (HMat (Mat p)))) (\<lambda>h.
       invoke callback [h])))))))"

subsection \<open>The catalogue of entry points\<close>

datatype call =
    ColorChange Mat Mat cfloat cfloat cfloat
  | SeamlessClone Mat Mat Mat Point cint
  | IlluminationChange Mat Mat cfloat cfloat
  | TextureFlattening Mat Mat cfloat cfloat cint
  | FastNlMeansDenoisingColoredMulti VecMat cint cint
  | FastNlMeansDenoisingColoredMultiWithParams VecMat cint cint cfloat cfloat cint cint
  | FastNlMeansDenoising Mat
  | FastNlMeansDenoisingWithParams Mat cfloat cint cint
  | FastNlMeansDenoisingColored Mat
  | FastNlMeansDenoisingColoredWithParams Mat cfloat cfloat cint cint
  | MergeMertens_Create
  | MergeMertens_CreateWithParams cfloat cfloat cfloat
  | MergeMertens_Process MergeMertens VecMat
  | AlignMTB_Create
  | AlignMTB_CreateWithParams cint cint bool
  | AlignMTB_Process AlignMTB VecMat
  | DetailEnhance Mat cfloat cfloat
  | EdgePreservingFilter Mat cint cfloat cfloat
  | PencilSketch Mat Mat Mat cfloat cfloat cfloat
  | Stylization Mat cfloat cfloat
  | PhotoInpaint Mat Mat cfloat cint

fun run :: "native \<Rightarrow> call \<Rightarrow> callback \<Rightarrow> world \<Rightarrow> ret \<times> world" where
  "run lib (ColorChange src mask' r g b) cb = ColorChange_Async lib src mask' r g b cb"
| "run lib (SeamlessClone src dst mask' p flags) cb = SeamlessClone_Async lib src dst mask' p flags cb"
| "run lib (IlluminationChange src mask' alpha beta) cb = IlluminationChange_Async lib src mask' alpha beta cb"
| "run lib (TextureFlattening src mask' lo hi k) cb = TextureFlattening_Async lib src mask' lo hi k cb"
| "run lib (FastNlMeansDenoisingColoredMulti src i t) cb =
     FastNlMeansDenoisingColoredMulti_Async lib src i t cb"
| "run lib (FastNlMeansDenoisingColoredMultiWithParams src i t h hc tw sw) cb =
     FastNlMeansDenoisingColoredMultiWithParams_Async lib src i t h hc tw sw cb"
| "run lib (FastNlMeansDenoising src) cb = FastNlMeansDenoising_Async lib src cb"
| "run lib (FastNlMeansDenoisingWithParams src h tw sw) cb =
     FastNlMeansDenoisingWithParams_Async lib src h tw sw cb"
| "run lib (FastNlMeansDenoisingColored src) cb = FastNlMeansDenoisingColored_Async lib src cb"
| "run lib (FastNlMeansDenoisingColoredWithParams src h hc tw sw) cb =
     FastNlMeansDenoisingColoredWithParams_Async lib src h hc tw sw cb"
| "run lib MergeMertens_Create cb = MergeMertens_Create_Async lib cb"
| "run lib (MergeMertens_CreateWithParams cw sw ew) cb = MergeMertens_CreateWithParams_Async lib cw sw ew cb"
| "run lib (MergeMertens_Process b src) cb = MergeMertens_Process_Async lib b src cb"
| "run lib AlignMTB_Create cb = AlignMTB_Create_Async lib cb"
| "run lib (AlignMTB_CreateWithParams mb er c) cb = AlignMTB_CreateWithParams_Async lib mb er c cb"
| "run lib (AlignMTB_Process b src) cb = AlignMTB_Process_Async lib b src cb"
| "run lib (DetailEnhance src ss sr) cb = DetailEnhance_Async lib src ss sr cb"
| "run lib (EdgePreservingFilter src f ss sr) cb = EdgePreservingFilter_Async lib src f ss sr cb"
| "run lib (PencilSketch src dst1 dst2 ss sr sf) cb = PencilSketch_Async lib src dst1 dst2 ss sr sf cb"
| "run lib (Stylization src ss sr) cb = Stylization_Async lib src ss sr cb"
| "run lib (PhotoInpaint src mask' r t) cb = PhotoInpaint_Async lib src mask' r t cb"

fun callback_param :: "call \<Rightarrow> cb_type" where
  \<comment> \<open>the declared type of the parameter \<^verbatim>\<open>callback\<close>: \<^verbatim>\<open>CvCallback_1\<close> in all 21 signatures\<close>
  "callback_param (PencilSketch src dst1 dst2 ss sr sf) = CvCallback_1"
| "callback_param _ = CvCallback_1"

fun END_WRAP_line :: "call \<Rightarrow> nat" where
  "END_WRAP_line (ColorChange _ _ _ _ _) = 11"
| "END_WRAP_line (SeamlessClone _ _ _ _ _) = 20"
| "END_WRAP_line (IlluminationChange _ _ _ _) = 29"
| "END_WRAP_line (TextureFlattening _ _ _ _ _) = 38"
| "END_WRAP_line (FastNlMeansDenoisingColoredMulti _ _ _) = 47"
| "END_WRAP_line (FastNlMeansDenoisingColoredMultiWithParams _ _ _ _ _ _ _) = 55"
| "END_WRAP_line (FastNlMeansDenoising _) = 64"
| "END_WRAP_line (FastNlMeansDenoisingWithParams _ _ _ _) = 72"
| "END_WRAP_line (FastNlMeansDenoisingColored _) = 81"
| "END_WRAP_line (FastNlMeansDenoisingColoredWithParams _ _ _ _ _) = 89"
| "END_WRAP_line MergeMertens_Create = 96"
| "END_WRAP_line (MergeMertens_CreateWithParams _ _ _) = 102"
| "END_WRAP_line (MergeMertens_Process _ _) = 110"
| "END_WRAP_line AlignMTB_Create = 117"
| "END_WRAP_line (AlignMTB_CreateWithParams _ _ _) = 123"
| "END_WRAP_line (AlignMTB_Process _ _) = 131"
| "END_WRAP_line (DetailEnhance _ _ _) = 140"
| "END_WRAP_line (EdgePreservingFilter _ _ _ _) = 149"
| "END_WRAP_line (PencilSketch _ _ _ _ _ _) = 157"
| "END_WRAP_line (Stylization _ _ _) = 166"
| "END_WRAP_line (PhotoInpaint _ _ _ _) = 175"

fun input_handles :: "call \<Rightarrow> handle list" where
  "input_handles (ColorChange src mask' _ _ _) = [HMat src, HMat mask']"
| "input_handles (SeamlessClone src dst mask' _ _) = [HMat src, HMat dst, HMat mask']"
| "input_handles (IlluminationChange src mask' _ _) = [HMat src, HMat mask']"
| "input_handles (TextureFlattening src mask' _ _ _) = [HMat src, HMat mask']"
| "input_handles (FastNlMeansDenoisingColoredMulti src _ _) = [HVecMat src]"
| "input_handles (FastNlMeansDenoisingColoredMultiWithParams src _ _ _ _ _ _) = [HVecMat src]"
| "input_handles (FastNlMeansDenoising src) = [HMat src]"
| "input_handles (FastNlMeansDenoisingWithParams src _ _ _) = [HMat src]"
| "input_handles (FastNlMeansDenoisingColored src) = [HMat src]"
| "input_handles (FastNlMeansDenoisingColoredWithParams src _ _ _ _) = [HMat src]"
| "input_handles MergeMertens_Create = []"
| "input_handles (MergeMertens_CreateWithParams _ _ _) = []"
| "input_handles (MergeMertens_Process b src) = [HMergeMertens b, HVecMat src]"
| "input_handles AlignMTB_Create = []"
| "input_handles (AlignMTB_CreateWithParams _ _ _) = []"
| "input_handles (AlignMTB_Process b src) = [HAlignMTB b, HVecMat src]"
| "input_handles (DetailEnhance src _ _) = [HMat src]"
| "input_handles (EdgePreservingFilter src _ _ _) = [HMat src]"
| "input_handles (PencilSketch src dst1 dst2 _ _ _) = [HMat src, HMat dst1, HMat dst2]"
| "input_handles (Stylization src _ _) = [HMat src]"
| "input_handles (PhotoInpaint src mask' _ _) = [HMat src, HMat mask']"

fun valid_handle :: "world \<Rightarrow> handle \<Rightarrow> bool" where
  \<comment> \<open>the handle points to a live native object of its type (with live pixel buffers)\<close>
  "valid_handle w (HMat m) = (Mat_pixels w m \<noteq> None)"
| "valid_handle w (HVecMat v) = (VecMat_pixels w v \<noteq> None)"
| "valid_handle w (HMergeMertens b) = (MergeMertens_alg w b \<noteq> None)"
| "valid_handle w (HAlignMTB b) = (AlignMTB_alg w b \<noteq> None)"

definition valid_call :: "world \<Rightarrow> call \<Rightarrow> bool" where
  "valid_call w c = list_all (valid_handle w) (input_handles c)"

definition callbacks :: "world \<Rightarrow> addr list list" where
  \<comment> \<open>the callback invocations recorded so far, with their arguments\<close>
  "callbacks w = concat (map (\<lambda>ev. case ev of Callback hs \<Rightarrow> [hs] | Native _ _ \<Rightarrow> []) (trace w))"

definition allocated :: "world \<Rightarrow> addr set" where
  "allocated w = fst ` set (heap w)"

subsection \<open>Releasing a handle\<close>


subsection \<open>The common shape of the entry points\<close>

text \<open>
  Every entry point does the same three things inside its envelope: one native call,
  the allocation of the output handle(s), one callback invocation. \<open>protocol\<close> is that
  shape; \<open>forwarded\<close> gives, for each operation of the catalogue, the native routine with
  the arguments in the order of the operation's own parameters and the kind of output;
  \<open>prepared\<close> is the world in which the native call is answered (a \<open>process\<close> method
  leaves its algorithm object behind).
\<close>

datatype outputs = OutMat pixels | OutVec "pixels list" | OutMerge alg | OutAlign alg
  | OutPencil Mat Mat pixels pixels

definition ret :: "'a \<Rightarrow> 'a comp" where "ret x w = (Val x, w)"

fun deliver :: "outputs \<Rightarrow> addr list comp" where
  "deliver (OutMat px) =
     bnd (fill_local px) (\<lambda>dst. bnd (new (OMat dst)) (\<lambda>p. bnd (new (OHandle (HMat (Mat p)))) (\<lambda>h. ret [h])))"
| "deliver (OutVec pxs) =
     bnd (fill_locals pxs) (\<lambda>vec. bnd (new (OVec vec)) (\<lambda>p. bnd (new (OHandle (HVecMat (VecMat p)))) (\<lambda>h. ret [h])))"
| "deliver (OutMerge a) =
     bnd (new (OMerge a)) (\<lambda>p. bnd (new (OHandle (HMergeMertens (MergeMertens p)))) (\<lambda>h. ret [h]))"
| "deliver (OutAlign a) =
     bnd (new (OAlign a)) (\<lambda>p. bnd (new (OHandle (HAlignMTB (AlignMTB p)))) (\<lambda>h. ret [h]))"
| "deliver (OutPencil dst1 dst2 px1 px2) =
     bnd (store_Mat dst1 px1) (\<lambda>_. bnd (store_Mat dst2 px2) (\<lambda>_.
     bnd (load_Mat dst1) (\<lambda>d1. bnd (new (OMat d1)) (\<lambda>p1. bnd (new (OHandle (HMat (Mat p1)))) (\<lambda>h1.
     bnd (load_Mat dst2) (\<lambda>d2. bnd (new (OMat d2)) (\<lambda>p2. bnd (new (OHandle (HMat (Mat p2)))) (\<lambda>h2.
     ret [h1, h2]))))))))"

definition protocol :: "nat \<Rightarrow> string \<times> arg list \<times> (exn + outputs) \<Rightarrow> callback \<Rightarrow> world \<Rightarrow> ret \<times> world" where
  "protocol l req callback =
     (case req of (name, args, r) \<Rightarrow>
        WRAP l (bnd (cv name args r) (\<lambda>out. bnd (deliver out) (\<lambda>hs. invoke callback hs))))"

definition pix :: "world \<Rightarrow> Mat \<Rightarrow> pixels" where
  "pix w m = (case Mat_pixels w m of Some px \<Rightarrow> px | None \<Rightarrow> no_pixels)"

definition vpix :: "world \<Rightarrow> VecMat \<Rightarrow> pixels list" where
  "vpix w v = (case VecMat_pixels w v of Some pxs \<Rightarrow> pxs | None \<Rightarrow> [])"

definition malg :: "world \<Rightarrow> MergeMertens \<Rightarrow> alg" where
  "malg w b = (case MergeMertens_alg w b of Some a \<Rightarrow> a | None \<Rightarrow> Alg [])"

definition aalg :: "world \<Rightarrow> AlignMTB \<Rightarrow> alg" where
  "aalg w b = (case AlignMTB_alg w b of Some a \<Rightarrow> a | None \<Rightarrow> Alg [])"

fun forwarded :: "native \<Rightarrow> call \<Rightarrow> world \<Rightarrow> string \<times> arg list \<times> (exn + outputs)" where
  "forwarded lib (ColorChange src mask' red_mul green_mul blue_mul) w =
     (''cv::colorChange'',
      [ARef (Mat_ptr src), ARef (Mat_ptr mask'), AFloat red_mul, AFloat green_mul, AFloat blue_mul],
      map_sum id OutMat (colorChange lib (pix w src) (pix w mask') red_mul green_mul blue_mul))"
| "forwarded lib (SeamlessClone src dst mask' p flags) w =
     (''cv::seamlessClone'',
      [ARef (Mat_ptr src), ARef (Mat_ptr dst), ARef (Mat_ptr mask'), APoint (Point_x p) (Point_y p),
       AInt flags],
      map_sum id OutMat (seamlessClone lib (pix w src) (pix w dst) (pix w mask') p flags))"
| "forwarded lib (IlluminationChange src mask' alpha beta) w =
     (''cv::illuminationChange'',
      [ARef (Mat_ptr src), ARef (Mat_ptr mask'), AFloat alpha, AFloat beta],
      map_sum id OutMat (illuminationChange lib (pix w src) (pix w mask') alpha beta))"
| "forwarded lib (TextureFlattening src mask' low_threshold high_threshold kernel_size) w =
     (''cv::textureFlattening'',
      [ARef (Mat_ptr src), ARef (Mat_ptr mask'), AFloat low_threshold, AFloat high_threshold,
       AInt kernel_size],
      map_sum id OutMat
        (textureFlattening lib (pix w src) (pix w mask') low_threshold high_threshold kernel_size))"
| "forwarded lib (FastNlMeansDenoisingColoredMulti src imgToDenoiseIndex temporalWindowSize) w =
     (''cv::fastNlMeansDenoisingColoredMulti'',
      [ARef (VecMat_ptr src), AInt imgToDenoiseIndex, AInt temporalWindowSize,
       AFloat (default_h lib), AFloat (default_hColor lib),
       AInt (default_templateWindowSize lib), AInt (default_searchWindowSize lib)],
      map_sum id OutMat
        (fastNlMeansDenoisingColoredMulti lib (vpix w src) imgToDenoiseIndex temporalWindowSize
           (default_h lib) (default_hColor lib)
           (default_templateWindowSize lib) (default_searchWindowSize lib)))"
| "forwarded lib (FastNlMeansDenoisingColoredMultiWithParams src imgToDenoiseIndex temporalWindowSize
       h hColor templateWindowSize searchWindowSize) w =
     (''cv::fastNlMeansDenoisingColoredMulti'',
      [ARef (VecMat_ptr src), AInt imgToDenoiseIndex, AInt temporalWindowSize,
       AFloat h, AFloat hColor, AInt templateWindowSize, AInt searchWindowSize],
      map_sum id OutMat
        (fastNlMeansDenoisingColoredMulti lib (vpix w src) imgToDenoiseIndex temporalWindowSize
           h hColor templateWindowSize searchWindowSize))"
| "forwarded lib (FastNlMeansDenoising src) w =
     (''cv::fastNlMeansDenoising'',
      [ARef (Mat_ptr src), AFloat (default_h lib),
       AInt (default_templateWindowSize lib), AInt (default_searchWindowSize lib)],
      map_sum id OutMat
        (fastNlMeansDenoising lib (pix w src) (default_h lib)
           (default_templateWindowSize lib) (default_searchWindowSize lib)))"
| "forwarded lib (FastNlMeansDenoisingWithParams src h templateWindowSize searchWindowSize) w =
     (''cv::fastNlMeansDenoising'',
      [ARef (Mat_ptr src), AFloat h, AInt templateWindowSize, AInt searchWindowSize],
      map_sum id OutMat (fastNlMeansDenoising lib (pix w src) h templateWindowSize searchWindowSize))"
| "forwarded lib (FastNlMeansDenoisingColored src) w =
     (''cv::fastNlMeansDenoisingColored'',
      [ARef (Mat_ptr src), AFloat (default_h lib), AFloat (default_hColor lib),
       AInt (default_templateWindowSize lib), AInt (default_searchWindowSize lib)],
      map_sum id OutMat
        (fastNlMeansDenoisingColored lib (pix w src) (default_h lib) (default_hColor lib)
           (default_templateWindowSize lib) (default_searchWindowSize lib)))"
| "forwarded lib (FastNlMeansDenoisingColoredWithParams src h hColor templateWindowSize
       searchWindowSize) w =
     (''cv::fastNlMeansDenoisingColored'',
      [ARef (Mat_ptr src), AFloat h, AFloat hColor, AInt templateWindowSize, AInt searchWindowSize],
      map_sum id OutMat
        (fastNlMeansDenoisingColored lib (pix w src) h hColor templateWindowSize searchWindowSize))"
| "forwarded lib MergeMertens_Create w =
     (''cv::createMergeMertens'',
      [AFloat (default_contrast_weight lib), AFloat (default_saturation_weight lib),
       AFloat (default_exposure_weight lib)],
      map_sum id OutMerge
        (createMergeMertens lib (default_contrast_weight lib) (default_saturation_weight lib)
           (default_exposure_weight lib)))"
| "forwarded lib (MergeMertens_CreateWithParams contrast_weight saturation_weight exposure_weight) w =
     (''cv::createMergeMertens'',
      [AFloat contrast_weight, AFloat saturation_weight, AFloat exposure_weight],
      map_sum id OutMerge (createMergeMertens lib contrast_weight saturation_weight exposure_weight))"
| "forwarded lib (MergeMertens_Process b src) w =
     (''cv::MergeMertens::process'', [ARef (MergeMertens_ptr b), ARef (VecMat_ptr src)],
      map_sum id OutMat (snd (MergeMertens_process lib (malg w b) (vpix w src))))"
| "forwarded lib AlignMTB_Create w =
     (''cv::createAlignMTB'',
      [AInt (default_max_bits lib), AInt (default_exclude_range lib), ABool (default_cut lib)],
      map_sum id OutAlign
        (createAlignMTB lib (default_max_bits lib) (default_exclude_range lib) (default_cut lib)))"
| "forwarded lib (AlignMTB_CreateWithParams max_bits exclude_range cut') w =
     (''cv::createAlignMTB'', [AInt max_bits, AInt exclude_range, ABool cut'],
      map_sum id OutAlign (createAlignMTB lib max_bits exclude_range cut'))"
| "forwarded lib (AlignMTB_Process b src) w =
     (''cv::AlignMTB::process'', [ARef (AlignMTB_ptr b), ARef (VecMat_ptr src)],
      map_sum id OutVec (snd (AlignMTB_process lib (aalg w b) (vpix w src))))"
| "forwarded lib (DetailEnhance src sigma_s sigma_r) w =
     (''cv::detailEnhance'', [ARef (Mat_ptr src), AFloat sigma_s, AFloat sigma_r],
      map_sum id OutMat (detailEnhance lib (pix w src) sigma_s sigma_r))"
| "forwarded lib (EdgePreservingFilter src filter' sigma_s sigma_r) w =
     (''cv::edgePreservingFilter'', [ARef (Mat_ptr src), AInt filter', AFloat sigma_s, AFloat sigma_r],
      map_sum id OutMat (edgePreservingFilter lib (pix w src) filter' sigma_s sigma_r))"
| "forwarded lib (PencilSketch src dst1 dst2 sigma_s sigma_r shade_factor) w =
     (''cv::pencilSketch'',
      [ARef (Mat_ptr src), ARef (Mat_ptr dst1), ARef (Mat_ptr dst2),
       AFloat sigma_s, AFloat sigma_r, AFloat shade_factor],
      map_sum id (\<lambda>(px1, px2). OutPencil dst1 dst2 px1 px2)
        (pencilSketch lib (pix w src) sigma_s sigma_r shade_factor))"
| "forwarded lib (Stylization src sigma_s sigma_r) w =
     (''cv::stylization'', [ARef (Mat_ptr src), AFloat sigma_s, AFloat sigma_r],
      map_sum id OutMat (stylization lib (pix w src) sigma_s sigma_r))"
| "forwarded lib (PhotoInpaint src mask' inpaint_radius algorithm_type) w =
     (''cv::inpaint'',
      [ARef (Mat_ptr src), ARef (Mat_ptr mask'), AFloat inpaint_radius, AInt algorithm_type],
      map_sum id OutMat (inpaint lib (pix w src) (pix w mask') inpaint_radius algorithm_type))"

fun prepared :: "native \<Rightarrow> call \<Rightarrow> world \<Rightarrow> world" where
  "prepared lib (MergeMertens_Process b src) w =
     put (MergeMertens_ptr b) (OMerge (fst (MergeMertens_process lib (malg w b) (vpix w src)))) w"
| "prepared lib (AlignMTB_Process b src) w =
     put (AlignMTB_ptr b) (OAlign (fst (AlignMTB_process lib (aalg w b) (vpix w src)))) w"
| "prepared lib _ w = w"

subsection \<open>How a step may change the world\<close>

text \<open>
  \<open>grows\<close>: nothing is logged, and every object stays where it is, as it is.
  \<open>keeps\<close>: nothing is logged, no address in use goes down, and every valid handle
  stays valid.
\<close>

definition grows :: "world \<Rightarrow> world \<Rightarrow> bool" where
  "grows w w' \<longleftrightarrow> trace w' = trace w \<and> highest (heap w) \<le> highest (heap w') \<and>
     (\<forall>a ob. lookup w a = Some ob \<longrightarrow> lookup w' a = Some ob)"

definition keeps :: "world \<Rightarrow> world \<Rightarrow> bool" where
  "keeps w w' \<longleftrightarrow> trace w' = trace w \<and> highest (heap w) \<le> highest (heap w') \<and>
     (\<forall>hnd. valid_handle w hnd \<longrightarrow> valid_handle w' hnd)"

definition live :: "world \<Rightarrow> addr option \<Rightarrow> bool" where
  "live w hdr \<longleftrightarrow> hdr_pixels w hdr \<noteq> None"

text \<open>
  \<open>delivered\<close>: what the allocation of the output handles achieves. Every handle is a
  new handle structure that wraps a new native object, both above every address in use
  before, and every handle that was valid before still is.
\<close>

definition delivered :: "world \<Rightarrow> addr list \<Rightarrow> world \<Rightarrow> bool" where
  "delivered w hs w' \<longleftrightarrow> keeps w w' \<and> distinct hs \<and>
     (\<forall>h\<in>set hs. highest (heap w) < h \<and>
        (\<exists>hnd. lookup w' h = Some (OHandle hnd) \<and> highest (heap w) < handle_ptr hnd \<and> valid_handle w' hnd))"

fun handles_out :: "outputs \<Rightarrow> nat" where
  "handles_out (OutPencil _ _ _ _) = 2"
| "handles_out _ = 1"

fun deliverable :: "world \<Rightarrow> outputs \<Rightarrow> bool" where
  "deliverable w (OutPencil dst1 dst2 _ _) = (valid_handle w (HMat dst1) \<and> valid_handle w (HMat dst2))"
| "deliverable w _ = True"

text \<open>
  The parts of \<open>forwarded\<close>, and the world in which the output handles are allocated:
  the native call has been answered and recorded.
\<close>

definition native_event :: "native \<Rightarrow> call \<Rightarrow> world \<Rightarrow> event" where
  "native_event lib c w = (case forwarded lib c w of (name, args, r) \<Rightarrow> Native name args)"

definition native_result :: "native \<Rightarrow> call \<Rightarrow> world \<Rightarrow> exn + outputs" where
  "native_result lib c w = (case forwarded lib c w of (name, args, r) \<Rightarrow> r)"

definition before_delivery :: "native \<Rightarrow> call \<Rightarrow> world \<Rightarrow> world" where
  "before_delivery lib c w = log_event (native_event lib c w) (prepared lib c w)"

subsection \<open>Concrete inputs\<close>

text \<open>
  A small native library, a world with a few live objects and two callbacks, on which the
  entry points are run. The floats are bit patterns: \<open>0x40400000\<close> is 3.0 and
  \<open>0x3F800000\<close> is 1.0.
\<close>

definition sample_lib :: native where
  "sample_lib = \<lparr>
     colorChange = (\<lambda>s m r g b. if same_shape s m then Inr s else Inl (CvException ''mask size'')),
     seamlessClone = (\<lambda>s d m p f. if same_shape s m then Inr d else Inl (CvException ''mask size'')),
     illuminationChange = (\<lambda>s m a b. Inr s),
     textureFlattening = (\<lambda>s m lo hi k. Inr s),
     fastNlMeansDenoisingColoredMulti = (\<lambda>xs i t h hc tw sw.
        if unat i < length xs then Inr (xs ! unat i) else Inl (CvException ''imgToDenoiseIndex'')),
     fastNlMeansDenoising = (\<lambda>s h tw sw. Inr s),
     fastNlMeansDenoisingColored = (\<lambda>s h hc tw sw. Inr s),
     createMergeMertens = (\<lambda>c s e. Inr (Alg [c, s, e])),
     MergeMertens_process = (\<lambda>a xs. (a, case xs of [] \<Rightarrow> Inl (CvException ''empty'') | x # _ \<Rightarrow> Inr x)),
     createAlignMTB = (\<lambda>mb er c. Inr (Alg [mb, er])),
     AlignMTB_process = (\<lambda>a xs. (a, Inr xs)),
     detailEnhance = (\<lambda>s ss sr. Inr s),
     edgePreservingFilter = (\<lambda>s f ss sr. Inr s),
     pencilSketch = (\<lambda>s ss sr sf. Inr (s, s)),
     stylization = (\<lambda>s ss sr. Inl (Unclassified ''out of memory'')),
     inpaint = (\<lambda>s m r t. Inr s),
     default_h = 0x40400000,
     default_hColor = 0x40400000,
     default_templateWindowSize = 7,
     default_searchWindowSize = 21,
     default_contrast_weight = 0x3F800000,
     default_saturation_weight = 0x3F800000,
     default_exposure_weight = 0,
     default_max_bits = 6,
     default_exclude_range = 4,
     default_cut = True \<rparr>"

definition sample_world :: world where
  "sample_world = \<lparr> heap =
      [(1, OBuf (Pixels 1 1 0 [128])), (2, OMat (Some 1)), (3, OMat None), (4, OMat None),
       (5, OVec [Some 1]), (6, OMerge (Alg [])), (7, OAlign (Alg [])),
       (8, OBuf (Pixels 2 2 0 [1, 1, 1, 1])), (9, OMat (Some 8))],
      trace = [] \<rparr>"

definition returning :: callback where
  "returning hs = None"

definition raising :: callback where
  "raising hs = Some (Unclassified ''callback failed'')"

text \<open>
  The parameterised form of an operation that also has a parameter-free form, with the
  library's default arguments filled in.
\<close>

fun with_defaults :: "native \<Rightarrow> call \<Rightarrow> call" where
  "with_defaults lib (FastNlMeansDenoisingColoredMulti src imgToDenoiseIndex temporalWindowSize) =
     FastNlMeansDenoisingColoredMultiWithParams src imgToDenoiseIndex temporalWindowSize
       (default_h lib) (default_hColor lib)
       (default_templateWindowSize lib) (default_searchWindowSize lib)"
| "with_defaults lib (FastNlMeansDenoising src) =
     FastNlMeansDenoisingWithParams src (default_h lib)
       (default_templateWindowSize lib) (default_searchWindowSize lib)"
| "with_defaults lib (FastNlMeansDenoisingColored src) =
     FastNlMeansDenoisingColoredWithParams src (default_h lib) (default_hColor lib)
       (default_templateWindowSize lib) (default_searchWindowSize lib)"
| "with_defaults lib MergeMertens_Create =
     MergeMertens_CreateWithParams (default_contrast_weight lib) (default_saturation_weight lib)
       (default_exposure_weight lib)"
| "with_defaults lib AlignMTB_Create =
     AlignMTB_CreateWithParams (default_max_bits lib) (default_exclude_range lib) (default_cut lib)"
| "with_defaults lib c = c"

subsection \<open>What a handle holds\<close>



fun footprint :: "world \<Rightarrow> handle \<Rightarrow> addr set" where
  \<comment> \<open>the addresses a handle reads: its native object and the buffers of its headers\<close>
  "footprint w (HMat m) = insert (Mat_ptr m)
     (case lookup w (Mat_ptr m) of Some (OMat (Some b)) \<Rightarrow> {b} | _ \<Rightarrow> {})"
| "footprint w (HVecMat v) = insert (VecMat_ptr v)
     (case lookup w (VecMat_ptr v) of Some (OVec hdrs) \<Rightarrow> {b. Some b \<in> set hdrs} | _ \<Rightarrow> {})"
| "footprint w (HMergeMertens b) = {MergeMertens_ptr b}"
| "footprint w (HAlignMTB b) = {AlignMTB_ptr b}"

text \<open>
  \<open>handles_fresh\<close>: every handle structure in the later world was there before, or wraps
  a native object allocated since. \<open>repeat_call\<close>: the same call, made \<open>n\<close> times in a row.
\<close>

definition handles_fresh :: "world \<Rightarrow> world \<Rightarrow> bool" where
  "handles_fresh w w' \<longleftrightarrow>
     (\<forall>h hnd. lookup w' h = Some (OHandle hnd) \<longrightarrow>
        lookup w h = Some (OHandle hnd) \<or> highest (heap w) < handle_ptr hnd)"

fun repeat_call :: "nat \<Rightarrow> native \<Rightarrow> call \<Rightarrow> callback \<Rightarrow> world \<Rightarrow> world" where
  "repeat_call 0 lib c cb w = w"
| "repeat_call (Suc n) lib c cb w = repeat_call n lib c cb (snd (run lib c cb w))"




definition boxed_world :: world where
  \<comment> \<open>the sample world, with handle structures for the fusion algorithm and the sequence\<close>
  "boxed_world = sample_world\<lparr>heap :=
      (11, OHandle (HVecMat (VecMat 5))) # (10, OHandle (HMergeMertens (MergeMertens 6)))
      # heap sample_world\<rparr>"



section \<open>Proofs\<close>

subsection \<open>Every entry point follows the common shape\<close>

lemma bnd_assoc: "bnd (bnd m f) g = bnd m (\<lambda>x. bnd (f x) g)"
  by (rule ext) (simp add: bnd_def split: prod.splits res.splits)

lemma bnd_ret: "bnd (ret x) f = f x"
  by (rule ext) (simp add: bnd_def ret_def)

lemma bnd_deref_Mat: "Mat_pixels w m \<noteq> None \<Longrightarrow> bnd (deref_Mat m) f w = f (pix w m) w"
  by (auto simp: bnd_def deref_Mat_def deref_def pix_def)

lemma bnd_cv: "bnd (cv n a r) f w = (case r of Inl e \<Rightarrow> (Raise e, log_event (Native n a) w) | Inr x \<Rightarrow> f x (log_event (Native n a) w))"
  by (auto simp: bnd_def cv_def split: sum.splits)

lemma WRAP_cong: "body w = body' w' \<Longrightarrow> WRAP l body w = WRAP l body' w'"
  by (simp add: WRAP_def)


lemma bnd_deref_VecMat: "VecMat_pixels w v \<noteq> None \<Longrightarrow> bnd (deref_VecMat v) f w = f (vpix w v) w"
  by (auto simp: bnd_def deref_VecMat_def deref_def vpix_def)

lemma bnd_deref_MergeMertens: "MergeMertens_alg w b \<noteq> None \<Longrightarrow> bnd (deref_MergeMertens b) f w = f (malg w b) w"
  by (auto simp: bnd_def deref_MergeMertens_def deref_def malg_def)

lemma bnd_deref_AlignMTB: "AlignMTB_alg w b \<noteq> None \<Longrightarrow> bnd (deref_AlignMTB b) f w = f (aalg w b) w"
  by (auto simp: bnd_def deref_AlignMTB_def deref_def aalg_def)

lemma bnd_store_MergeMertens: "bnd (store_MergeMertens b a) f w = f () (put (MergeMertens_ptr b) (OMerge a) w)"
  by (simp add: bnd_def store_MergeMertens_def)

lemma bnd_store_AlignMTB: "bnd (store_AlignMTB b a) f w = f () (put (AlignMTB_ptr b) (OAlign a) w)"
  by (simp add: bnd_def store_AlignMTB_def)

lemma bnd_load_Mat_valid: "Mat_pixels w m \<noteq> None \<Longrightarrow> bnd (load_Mat m) (\<lambda>_. f) w = f w"
  by (auto simp: bnd_def load_Mat_def Mat_pixels_def split: option.splits obj.splits)

lemmas entry_defs = ColorChange_Async_def SeamlessClone_Async_def IlluminationChange_Async_def
  TextureFlattening_Async_def FastNlMeansDenoisingColoredMulti_Async_def
  FastNlMeansDenoisingColoredMultiWithParams_Async_def FastNlMeansDenoising_Async_def
  FastNlMeansDenoisingWithParams_Async_def FastNlMeansDenoisingColored_Async_def
  FastNlMeansDenoisingColoredWithParams_Async_def MergeMertens_Create_Async_def
  MergeMertens_CreateWithParams_Async_def MergeMertens_Process_Async_def AlignMTB_Create_Async_def
  AlignMTB_CreateWithParams_Async_def AlignMTB_Process_Async_def DetailEnhance_Async_def
  EdgePreservingFilter_Async_def PencilSketch_Async_def Stylization_Async_def PhotoInpaint_Async_def

lemma run_protocol:
  "valid_call w c \<Longrightarrow>
     run lib c cb w = protocol (END_WRAP_line c) (forwarded lib c w) cb (prepared lib c w)"
proof (cases c)
  case (PencilSketch src dst1 dst2 ss sr sf)
  assume "valid_call w c"
  with PencilSketch show ?thesis
    apply (simp add: PencilSketch_Async_def protocol_def valid_call_def)
    apply (rule WRAP_cong)
    apply (simp add: bnd_deref_Mat bnd_load_Mat_valid bnd_cv bnd_assoc bnd_ret split: sum.splits prod.splits)
    done
next
  case (MergeMertens_Process b src)
  assume "valid_call w c"
  with MergeMertens_Process show ?thesis
    apply (simp add: MergeMertens_Process_Async_def protocol_def valid_call_def)
    apply (rule WRAP_cong)
    apply (simp add: bnd_deref_MergeMertens bnd_deref_VecMat bnd_store_MergeMertens bnd_cv bnd_assoc bnd_ret split: sum.splits)
    done
next
  case (AlignMTB_Process b src)
  assume "valid_call w c"
  with AlignMTB_Process show ?thesis
    apply (simp add: AlignMTB_Process_Async_def protocol_def valid_call_def)
    apply (rule WRAP_cong)
    apply (simp add: bnd_deref_AlignMTB bnd_deref_VecMat bnd_store_AlignMTB bnd_cv bnd_assoc bnd_ret split: sum.splits)
    done
qed (simp add: entry_defs protocol_def valid_call_def, rule WRAP_cong,
     simp add: bnd_deref_Mat bnd_deref_VecMat bnd_cv bnd_assoc bnd_ret split: sum.splits)+


subsection \<open>The heap\<close>

lemma highest_ge: "(a, ob) \<in> set h \<Longrightarrow> a \<le> highest h"
  by (induction h) auto

lemma lookup_le_highest: "lookup w a = Some ob \<Longrightarrow> a \<le> highest (heap w)"
  unfolding lookup_def by (rule highest_ge, erule map_of_SomeD)

lemma lookup_above_highest: "highest (heap w) < a \<Longrightarrow> lookup w a = None"
  using lookup_le_highest [of w a] by (cases "lookup w a") auto

lemma lookup_fresh: "lookup w (fresh w) = None"
  by (rule lookup_above_highest) (simp add: fresh_def)

lemma highest_update: "highest (AList.update a ob h) = max a (highest h)"
  by (induction h) auto

lemma highest_delete: "highest (AList.delete a h) \<le> highest h"
  by (induction h) auto

lemma lookup_put: "lookup (put a ob w) a' = (if a' = a then Some ob else lookup w a')"
  by (simp add: lookup_def put_def update_conv')

lemma lookup_del: "lookup (del a w) a' = (if a' = a then None else lookup w a')"
  by (simp add: lookup_def del_def delete_conv')

lemma lookup_log_event: "lookup (log_event ev w) a = lookup w a"
  by (simp add: lookup_def log_event_def)

lemma new_eq: "new ob w = (Val (Suc (highest (heap w))), w\<lparr>heap := (Suc (highest (heap w)), ob) # heap w\<rparr>)"
  by (simp add: new_def alloc_def fresh_def)

lemma bnd_new: "bnd (new ob) f w = f (Suc (highest (heap w))) (w\<lparr>heap := (Suc (highest (heap w)), ob) # heap w\<rparr>)"
  by (simp add: bnd_def new_eq)

lemma lookup_cons: "lookup (w\<lparr>heap := (a, ob) # heap w\<rparr>) a' = (if a' = a then Some ob else lookup w a')"
  by (auto simp add: lookup_def)

lemma grows_refl: "grows w w"
  by (simp add: grows_def)

lemma grows_trans: "grows w w' \<Longrightarrow> grows w' w'' \<Longrightarrow> grows w w''"
  by (auto simp: grows_def)

lemma grows_cons: "grows w (w\<lparr>heap := (Suc (highest (heap w)), ob) # heap w\<rparr>)"
  by (auto simp: grows_def lookup_cons dest: lookup_le_highest)

lemma grows_hdr_pixels: "grows w w' \<Longrightarrow> hdr_pixels w hdr = Some px \<Longrightarrow> hdr_pixels w' hdr = Some px"
  by (cases hdr) (auto simp: grows_def split: option.splits obj.splits)

lemma grows_Mat_pixels: "grows w w' \<Longrightarrow> Mat_pixels w m = Some px \<Longrightarrow> Mat_pixels w' m = Some px"
  using grows_hdr_pixels [of w w']
  by (auto simp: Mat_pixels_def grows_def [of w w'] split: option.splits obj.splits)


subsection \<open>Steps that keep every valid handle valid\<close>

lemma referencedI: "lookup w a = Some ob \<Longrightarrow> refers ob b \<Longrightarrow> referenced w b"
  unfolding referenced_def lookup_def list_ex_iff
  by (auto dest!: map_of_SomeD)

lemma grows_keeps_aux_vec:
  "grows w w' \<Longrightarrow> those (map (hdr_pixels w) hdrs) = Some pxs \<Longrightarrow> those (map (hdr_pixels w') hdrs) = Some pxs"
proof (induction hdrs arbitrary: pxs)
  case Nil then show ?case by simp
next
  case (Cons h hs)
  then show ?case
    by (auto split: option.splits dest: grows_hdr_pixels)
qed

lemma grows_VecMat_pixels: "grows w w' \<Longrightarrow> VecMat_pixels w v = Some pxs \<Longrightarrow> VecMat_pixels w' v = Some pxs"
  using grows_keeps_aux_vec [of w w']
  by (auto simp: VecMat_pixels_def grows_def [of w w'] split: option.splits obj.splits)

lemma grows_MergeMertens_alg: "grows w w' \<Longrightarrow> MergeMertens_alg w b = Some a \<Longrightarrow> MergeMertens_alg w' b = Some a"
  by (auto simp: MergeMertens_alg_def grows_def split: option.splits obj.splits)

lemma grows_AlignMTB_alg: "grows w w' \<Longrightarrow> AlignMTB_alg w b = Some a \<Longrightarrow> AlignMTB_alg w' b = Some a"
  by (auto simp: AlignMTB_alg_def grows_def split: option.splits obj.splits)

lemma grows_valid_handle: "grows w w' \<Longrightarrow> valid_handle w hnd \<Longrightarrow> valid_handle w' hnd"
  by (cases hnd) (auto dest: grows_Mat_pixels grows_VecMat_pixels grows_MergeMertens_alg grows_AlignMTB_alg)

lemma grows_keeps: "grows w w' \<Longrightarrow> keeps w w'"
  by (auto simp: keeps_def grows_valid_handle) (auto simp: grows_def)

lemma keeps_refl: "keeps w w"
  by (simp add: keeps_def)

lemma keeps_trans: "keeps w w' \<Longrightarrow> keeps w' w'' \<Longrightarrow> keeps w w''"
  by (auto simp: keeps_def)

lemma fill_local_eq:
  "fill_local px w = (Val (Some (Suc (highest (heap w)))), w\<lparr>heap := (Suc (highest (heap w)), OBuf px) # heap w\<rparr>)"
  by (simp add: fill_local_def bnd_new)

lemma fill_locals_grows:
  "\<exists>hs w'. fill_locals pxs w = (Val hs, w') \<and> grows w w' \<and> those (map (hdr_pixels w') hs) = Some pxs"
proof (induction pxs arbitrary: w)
  case Nil
  show ?case by (simp add: grows_refl)
next
  case (Cons px pxs)
  let ?w1 = "w\<lparr>heap := (Suc (highest (heap w)), OBuf px) # heap w\<rparr>"
  obtain hs w' where r: "fill_locals pxs ?w1 = (Val hs, w')" and g: "grows ?w1 w'"
    and p: "those (map (hdr_pixels w') hs) = Some pxs"
    using Cons.IH [of ?w1] by blast
  have "hdr_pixels ?w1 (Some (Suc (highest (heap w)))) = Some px"
    by (simp add: lookup_cons)
  with g have "hdr_pixels w' (Some (Suc (highest (heap w)))) = Some px"
    by (rule grows_hdr_pixels)
  moreover have "grows w w'"
    using grows_cons g by (rule grows_trans)
  ultimately show ?case
    using r p by (simp add: bnd_def fill_local_eq)
qed


lemma those_None_iff: "those (map f xs) \<noteq> None \<longleftrightarrow> (\<forall>x\<in>set xs. f x \<noteq> None)"
  by (induction xs) (auto split: option.splits)

lemma live_None: "live w None"
  by (simp add: live_def)

lemma live_Some: "live w (Some b) \<longleftrightarrow> (\<exists>px. lookup w b = Some (OBuf px))"
  by (auto simp: live_def split: option.splits obj.splits)

lemma valid_handle_preserved:
  assumes m: "\<And>a hdr. lookup w a = Some (OMat hdr) \<Longrightarrow> live w hdr \<Longrightarrow>
                 \<exists>hdr'. lookup w' a = Some (OMat hdr') \<and> live w' hdr'"
    and v: "\<And>a hdrs. lookup w a = Some (OVec hdrs) \<Longrightarrow> \<forall>h\<in>set hdrs. live w h \<Longrightarrow>
                 \<exists>hdrs'. lookup w' a = Some (OVec hdrs') \<and> (\<forall>h\<in>set hdrs'. live w' h)"
    and f: "\<And>a x. lookup w a = Some (OMerge x) \<Longrightarrow> \<exists>x'. lookup w' a = Some (OMerge x')"
    and g: "\<And>a x. lookup w a = Some (OAlign x) \<Longrightarrow> \<exists>x'. lookup w' a = Some (OAlign x')"
    and ok: "valid_handle w hnd"
  shows "valid_handle w' hnd"
proof (cases hnd)
  case (HMat x)
  with ok m [of "Mat_ptr x"] show ?thesis
    by (auto simp: Mat_pixels_def live_def split: option.splits obj.splits)
next
  case (HVecMat x)
  with ok v [of "VecMat_ptr x"] show ?thesis
    by (auto simp: VecMat_pixels_def those_None_iff live_def simp del: not_None_eq split: option.splits obj.splits)
next
  case (HMergeMertens x)
  with ok f [of "MergeMertens_ptr x"] show ?thesis
    by (auto simp: MergeMertens_alg_def split: option.splits obj.splits)
next
  case (HAlignMTB x)
  with ok g [of "AlignMTB_ptr x"] show ?thesis
    by (auto simp: AlignMTB_alg_def split: option.splits obj.splits)
qed

lemma overwrite_keeps:
  assumes "lookup w b = Some (OBuf old)"
  shows "keeps w (put b (OBuf px) w)"
proof -
  have l: "live (put b (OBuf px) w) hdr" if "live w hdr" for hdr
    using that by (cases hdr) (auto simp: live_None live_Some lookup_put)
  have "valid_handle (put b (OBuf px) w) hnd" if "valid_handle w hnd" for hnd
    using assms
    by (rule_tac valid_handle_preserved [OF _ _ _ _ that])
       (auto simp: lookup_put l)
  moreover have "highest (heap w) \<le> highest (heap (put b (OBuf px) w))"
    by (simp add: put_def highest_update)
  ultimately show ?thesis
    by (simp add: keeps_def) (simp add: put_def)
qed

lemma attach_keeps:
  assumes "lookup w p = Some (OMat None)"
  shows "keeps w (put p (OMat (Some (Suc (highest (heap w))))) (w\<lparr>heap := (Suc (highest (heap w)), OBuf px) # heap w\<rparr>))"
    (is "keeps w ?w'")
proof -
  have np: "p \<noteq> Suc (highest (heap w))"
    using lookup_le_highest [OF assms] by simp
  have l: "live ?w' hdr" if "live w hdr" for hdr
    using that assms np by (cases hdr) (auto simp: live_None live_Some lookup_put lookup_cons)
  have "valid_handle ?w' hnd" if "valid_handle w hnd" for hnd
    using assms np
    by (rule_tac valid_handle_preserved [OF _ _ _ _ that])
       (auto simp: lookup_put lookup_cons l live_Some dest: lookup_le_highest)
  moreover have "highest (heap w) \<le> highest (heap ?w')"
    by (auto simp add: put_def highest_update)
  ultimately show ?thesis
    by (simp add: keeps_def) (simp add: put_def)
qed

lemma realloc_keeps:
  assumes p: "lookup w p = Some (OMat (Some b))" and b: "lookup w b = Some (OBuf old)"
  shows "keeps w (drop_ref (Some b) (put p (OMat (Some (Suc (highest (heap w)))))
            (w\<lparr>heap := (Suc (highest (heap w)), OBuf px) # heap w\<rparr>)))"
    (is "keeps w (drop_ref (Some b) ?w1)")
proof -
  let ?n = "Suc (highest (heap w))"
  let ?w' = "drop_ref (Some b) ?w1"
  have np: "p \<noteq> ?n" and nb: "b \<noteq> ?n" and pb: "p \<noteq> b"
    using lookup_le_highest [OF p] lookup_le_highest [OF b] p b by auto
  have l1: "lookup ?w1 a = (if a = p then Some (OMat (Some ?n)) else if a = ?n then Some (OBuf px) else lookup w a)" for a
    by (simp add: lookup_put lookup_cons)
  have l': "lookup ?w' a = (if a = b \<and> \<not> referenced ?w1 b then None else lookup ?w1 a)" for a
    by (simp add: drop_ref_def lookup_del)
  have keepm: "lookup ?w' a = Some (OMat hdr)" if "lookup w a = Some (OMat hdr)" "a \<noteq> p" for a hdr
    using that b lookup_le_highest [OF that(1)] by (auto simp: l' l1)
  have keepv: "lookup ?w' a = Some (OVec hdrs)" if "lookup w a = Some (OVec hdrs)" for a hdrs
    using that b p lookup_le_highest [OF that(1)] by (auto simp: l' l1)
  have refm: "live ?w' hdr" if "lookup w a = Some (OMat hdr)" "a \<noteq> p" "live w hdr" for a hdr
  proof (cases hdr)
    case None then show ?thesis by (simp add: live_None)
  next
    case (Some c)
    with that obtain q where c: "lookup w c = Some (OBuf q)" by (auto simp: live_Some)
    have "referenced ?w1 c"
      using that(1,2) Some lookup_le_highest [OF that(1)]
      by (intro referencedI [of _ a "OMat (Some c)"]) (auto simp: l1)
    with c p lookup_le_highest [OF c] Some show ?thesis
      by (auto simp: live_Some l' l1)
  qed
  have refv: "live ?w' h" if "lookup w a = Some (OVec hdrs)" "h \<in> set hdrs" "live w h" for a hdrs h
  proof (cases h)
    case None then show ?thesis by (simp add: live_None)
  next
    case (Some c)
    with that obtain q where c: "lookup w c = Some (OBuf q)" by (auto simp: live_Some)
    have "referenced ?w1 c"
      using that(1,2) Some p lookup_le_highest [OF that(1)]
      by (intro referencedI [of _ a "OVec hdrs"]) (auto simp: l1)
    with c p lookup_le_highest [OF c] Some show ?thesis
      by (auto simp: live_Some l' l1)
  qed
  have newp: "lookup ?w' p = Some (OMat (Some ?n))" "live ?w' (Some ?n)"
    using pb np nb by (auto simp: l' l1 live_Some)
  have "valid_handle ?w' hnd" if "valid_handle w hnd" for hnd
  proof (rule valid_handle_preserved [OF _ _ _ _ that])
    fix a hdr assume "lookup w a = Some (OMat hdr)" "live w hdr"
    then show "\<exists>hdr'. lookup ?w' a = Some (OMat hdr') \<and> live ?w' hdr'"
      using newp keepm refm by (cases "a = p") auto
  next
    fix a hdrs assume "lookup w a = Some (OVec hdrs)" "\<forall>h\<in>set hdrs. live w h"
    then show "\<exists>hdrs'. lookup ?w' a = Some (OVec hdrs') \<and> (\<forall>h\<in>set hdrs'. live ?w' h)"
      using keepv refv by blast
  next
    fix a x assume "lookup w a = Some (OMerge x)"
    then show "\<exists>x'. lookup ?w' a = Some (OMerge x')"
      using b p lookup_le_highest [of w a] by (auto simp: l' l1)
  next
    fix a x assume "lookup w a = Some (OAlign x)"
    then show "\<exists>x'. lookup ?w' a = Some (OAlign x')"
      using b p lookup_le_highest [of w a] by (auto simp: l' l1)
  qed
  moreover have "highest (heap w) \<le> highest (heap ?w')"
  proof -
    have "lookup ?w' ?n = Some (OBuf px)"
      using np nb by (simp add: l' l1)
    from lookup_le_highest [OF this] show ?thesis by simp
  qed
  moreover have "trace ?w' = trace w"
    by (simp add: drop_ref_def del_def put_def)
  ultimately show ?thesis
    by (simp add: keeps_def)
qed

lemma store_Mat_keeps:
  assumes "Mat_pixels w m \<noteq> None"
  shows "\<exists>w'. store_Mat m px w = (Val (), w') \<and> keeps w w'"
proof -
  from assms obtain hdr where h: "lookup w (Mat_ptr m) = Some (OMat hdr)" and l: "live w hdr"
    by (auto simp: Mat_pixels_def live_def split: option.splits obj.splits)
  show ?thesis
  proof (cases hdr)
    case None
    with h attach_keeps [of w "Mat_ptr m" px] show ?thesis
      by (simp add: store_Mat_def alloc_def fresh_def)
  next
    case (Some b)
    with l obtain old where b: "lookup w b = Some (OBuf old)" by (auto simp: live_Some)
    with Some h overwrite_keeps [of w b old px] realloc_keeps [of w "Mat_ptr m" b old px] show ?thesis
      by (simp add: store_Mat_def alloc_def fresh_def)
  qed
qed


subsection \<open>Allocating the output handles\<close>

lemma grows_cons2: "grows w (w\<lparr>heap := (Suc (Suc (highest (heap w))), ob2) # (Suc (highest (heap w)), ob1) # heap w\<rparr>)"
  using grows_trans [OF grows_cons [of w ob1] grows_cons [of "w\<lparr>heap := (Suc (highest (heap w)), ob1) # heap w\<rparr>" ob2]]
  by simp

lemma grows_cons3: "grows w (w\<lparr>heap := (Suc (Suc (Suc (highest (heap w)))), ob3) # (Suc (Suc (highest (heap w))), ob2) # (Suc (highest (heap w)), ob1) # heap w\<rparr>)"
  using grows_trans [OF grows_cons2 [of w ob2 ob1] grows_cons [of "w\<lparr>heap := (Suc (Suc (highest (heap w))), ob2) # (Suc (highest (heap w)), ob1) # heap w\<rparr>" ob3]]
  by simp

lemma bnd_Pair_Val: "bnd (Pair (Val x)) f = f x"
  by (rule ext) (simp add: bnd_def)

lemma bnd_known: "m w = (Val x, w') \<Longrightarrow> bnd m f w = f x w'"
  by (simp add: bnd_def)

lemma deliver_OutMat:
  "deliver (OutMat px) w =
     (Val [Suc (Suc (Suc (highest (heap w))))],
      w\<lparr>heap := (Suc (Suc (Suc (highest (heap w)))), OHandle (HMat (Mat (Suc (Suc (highest (heap w)))))))
         # (Suc (Suc (highest (heap w))), OMat (Some (Suc (highest (heap w)))))
         # (Suc (highest (heap w)), OBuf px) # heap w\<rparr>)"
  by (simp add: fill_local_def bnd_new bnd_assoc bnd_Pair_Val ret_def)

lemma deliver_OutMerge:
  "deliver (OutMerge a) w =
     (Val [Suc (Suc (highest (heap w)))],
      w\<lparr>heap := (Suc (Suc (highest (heap w))), OHandle (HMergeMertens (MergeMertens (Suc (highest (heap w))))))
         # (Suc (highest (heap w)), OMerge a) # heap w\<rparr>)"
  by (simp add: bnd_new ret_def)

lemma deliver_OutAlign:
  "deliver (OutAlign a) w =
     (Val [Suc (Suc (highest (heap w)))],
      w\<lparr>heap := (Suc (Suc (highest (heap w))), OHandle (HAlignMTB (AlignMTB (Suc (highest (heap w))))))
         # (Suc (highest (heap w)), OAlign a) # heap w\<rparr>)"
  by (simp add: bnd_new ret_def)

lemma delivered_OutMat: "\<exists>hs w'. deliver (OutMat px) w = (Val hs, w') \<and> delivered w hs w' \<and> length hs = 1"
  unfolding deliver_OutMat delivered_def
  using grows_keeps [OF grows_cons3]
  by (simp add: lookup_def Mat_pixels_def)

lemma delivered_OutMerge: "\<exists>hs w'. deliver (OutMerge a) w = (Val hs, w') \<and> delivered w hs w' \<and> length hs = 1"
  unfolding deliver_OutMerge delivered_def
  using grows_keeps [OF grows_cons2]
  by (simp add: lookup_def MergeMertens_alg_def)

lemma delivered_OutAlign: "\<exists>hs w'. deliver (OutAlign a) w = (Val hs, w') \<and> delivered w hs w' \<and> length hs = 1"
  unfolding deliver_OutAlign delivered_def
  using grows_keeps [OF grows_cons2]
  by (simp add: lookup_def AlignMTB_alg_def)

lemma grows_highest: "grows w w' \<Longrightarrow> highest (heap w) \<le> highest (heap w')"
  by (simp add: grows_def)

lemma delivered_OutVec: "\<exists>hs w'. deliver (OutVec pxs) w = (Val hs, w') \<and> delivered w hs w' \<and> length hs = 1"
proof -
  obtain vec w1 where f: "fill_locals pxs w = (Val vec, w1)" and g: "grows w w1"
    and p: "those (map (hdr_pixels w1) vec) = Some pxs"
    using fill_locals_grows by blast
  let ?t = "highest (heap w1)"
  let ?w' = "w1\<lparr>heap := (Suc (Suc ?t), OHandle (HVecMat (VecMat (Suc ?t)))) # (Suc ?t, OVec vec) # heap w1\<rparr>"
  have d: "deliver (OutVec pxs) w = (Val [Suc (Suc ?t)], ?w')"
    by (simp add: bnd_known [of "fill_locals pxs" w vec w1, OF f] bnd_new ret_def)
  have g': "grows w1 ?w'" by (rule grows_cons2)
  have "those (map (hdr_pixels ?w') vec) = Some pxs"
    using g' p by (rule grows_keeps_aux_vec)
  then have "valid_handle ?w' (HVecMat (VecMat (Suc ?t)))"
    by (simp add: VecMat_pixels_def lookup_def)
  moreover have "keeps w ?w'"
    using grows_trans [OF g g'] by (rule grows_keeps)
  ultimately show ?thesis
    using grows_highest [OF g] unfolding d delivered_def
    by (simp add: lookup_def)
qed


lemma load_Mat_valid:
  assumes "Mat_pixels w m \<noteq> None"
  shows "\<exists>hdr. load_Mat m w = (Val hdr, w) \<and> lookup w (Mat_ptr m) = Some (OMat hdr) \<and> live w hdr"
  using assms by (auto simp: load_Mat_def Mat_pixels_def live_def split: option.splits obj.splits)

lemma grows_live: "grows w w' \<Longrightarrow> live w hdr \<Longrightarrow> live w' hdr"
  by (cases hdr) (auto simp: live_Some live_None grows_def)

lemma keeps_valid: "keeps w w' \<Longrightarrow> valid_handle w hnd \<Longrightarrow> valid_handle w' hnd"
  by (simp add: keeps_def)

lemma keeps_highest: "keeps w w' \<Longrightarrow> highest (heap w) \<le> highest (heap w')"
  by (simp add: keeps_def)

lemma delivered_OutPencil:
  assumes v1: "valid_handle w (HMat dst1)" and v2: "valid_handle w (HMat dst2)"
  shows "\<exists>hs w'. deliver (OutPencil dst1 dst2 px1 px2) w = (Val hs, w') \<and> delivered w hs w' \<and> length hs = 2"
proof -
  obtain w1 where s1: "store_Mat dst1 px1 w = (Val (), w1)" and k1: "keeps w w1"
    using store_Mat_keeps [of w dst1 px1] v1 by auto
  have "valid_handle w1 (HMat dst2)" using k1 v2 by (rule keeps_valid)
  then obtain w2 where s2: "store_Mat dst2 px2 w1 = (Val (), w2)" and k2: "keeps w1 w2"
    using store_Mat_keeps [of w1 dst2 px2] by auto
  have k: "keeps w w2" using k1 k2 by (rule keeps_trans)
  have "valid_handle w2 (HMat dst1)" using k v1 by (rule keeps_valid)
  then obtain d1 where l1: "load_Mat dst1 w2 = (Val d1, w2)" and d1: "live w2 d1"
    using load_Mat_valid [of w2 dst1] by auto
  let ?t = "highest (heap w2)"
  let ?w4 = "w2\<lparr>heap := (Suc (Suc ?t), OHandle (HMat (Mat (Suc ?t)))) # (Suc ?t, OMat d1) # heap w2\<rparr>"
  have g4: "grows w2 ?w4" by (rule grows_cons2)
  have "valid_handle w2 (HMat dst2)" using k v2 by (rule keeps_valid)
  with g4 have "valid_handle ?w4 (HMat dst2)" by (rule grows_valid_handle)
  then obtain d2 where l2: "load_Mat dst2 ?w4 = (Val d2, ?w4)" and d2: "live ?w4 d2"
    using load_Mat_valid [of ?w4 dst2] by auto
  let ?w6 = "?w4\<lparr>heap := (Suc (Suc (Suc (Suc ?t))), OHandle (HMat (Mat (Suc (Suc (Suc ?t))))))
                # (Suc (Suc (Suc ?t)), OMat d2) # heap ?w4\<rparr>"
  have g6: "grows ?w4 ?w6"
    using grows_cons2 [of ?w4] by simp
  have d: "deliver (OutPencil dst1 dst2 px1 px2) w = (Val [Suc (Suc ?t), Suc (Suc (Suc (Suc ?t)))], ?w6)"
    by (simp add: bnd_known [of "store_Mat dst1 px1" w "()" w1, OF s1]
        bnd_known [of "store_Mat dst2 px2" w1 "()" w2, OF s2]
        bnd_known [of "load_Mat dst1" w2 d1 w2, OF l1] bnd_new
        bnd_known [of "load_Mat dst2" ?w4 d2 ?w4, OF l2] ret_def)
  have "live ?w6 d1" using grows_trans [OF g4 g6] d1 by (rule grows_live)
  then have o1: "valid_handle ?w6 (HMat (Mat (Suc ?t)))"
    by (simp add: Mat_pixels_def lookup_def live_def)
  have "live ?w6 d2" using g6 d2 by (rule grows_live)
  then have o2: "valid_handle ?w6 (HMat (Mat (Suc (Suc (Suc ?t)))))"
    by (simp add: Mat_pixels_def lookup_def live_def)
  have "keeps w ?w6"
    using k grows_keeps [OF grows_trans [OF g4 g6]] by (rule keeps_trans)
  then show ?thesis
    using o1 o2 keeps_highest [OF k] unfolding d delivered_def
    by (simp add: lookup_def)
qed

lemma deliver_delivered:
  "deliverable w out \<Longrightarrow>
     \<exists>hs w'. deliver out w = (Val hs, w') \<and> delivered w hs w' \<and> length hs = handles_out out"
  using delivered_OutMat delivered_OutVec delivered_OutMerge delivered_OutAlign delivered_OutPencil
  by (cases out) auto


subsection \<open>The two ways an entry point ends\<close>

lemma hdr_pixels_cong: "(\<And>a. lookup w' a = lookup w a) \<Longrightarrow> hdr_pixels w' hdr = hdr_pixels w hdr"
  by (cases hdr) auto

lemma valid_handle_cong:
  assumes "\<And>a. lookup w' a = lookup w a"
  shows "valid_handle w' hnd = valid_handle w hnd"
proof -
  have "hdr_pixels w' = hdr_pixels w"
    using hdr_pixels_cong [of w' w, OF assms] by (intro ext) auto
  then show ?thesis
    by (cases hnd)
       (auto simp: Mat_pixels_def VecMat_pixels_def MergeMertens_alg_def AlignMTB_alg_def assms
             split: option.splits obj.splits)
qed

lemma valid_handle_log_event: "valid_handle (log_event ev w) hnd = valid_handle w hnd"
  by (rule valid_handle_cong) (rule lookup_log_event)

lemma put_alg_keeps:
  assumes "lookup w p = Some ob" and "(\<exists>a. ob = OMerge a \<and> ob' = OMerge a') \<or> (\<exists>a. ob = OAlign a \<and> ob' = OAlign a')"
  shows "keeps w (put p ob' w)"
proof -
  have l: "live (put p ob' w) hdr" if "live w hdr" for hdr
    using that assms by (cases hdr) (auto simp: live_None live_Some lookup_put)
  have "valid_handle (put p ob' w) hnd" if "valid_handle w hnd" for hnd
    using assms
    by (rule_tac valid_handle_preserved [OF _ _ _ _ that])
       (auto simp: lookup_put l)
  moreover have "highest (heap w) \<le> highest (heap (put p ob' w))"
    by (simp add: put_def highest_update)
  ultimately show ?thesis
    by (simp add: keeps_def) (simp add: put_def)
qed

lemma allocated_put: "lookup w p = Some ob \<Longrightarrow> allocated (put p ob' w) = allocated w"
proof -
  assume "lookup w p = Some ob"
  then have "p \<in> fst ` set (heap w)"
    unfolding lookup_def by (metis map_of_eq_None_iff option.distinct(1))
  then show ?thesis
    by (auto simp: allocated_def put_def dom_update)
qed

lemma highest_put: "lookup w p = Some ob \<Longrightarrow> highest (heap (put p ob' w)) = highest (heap w)"
  using lookup_le_highest [of w p ob] by (simp add: put_def highest_update)

lemma prepared_keeps:
  assumes "valid_call w c"
  shows "keeps w (prepared lib c w) \<and> allocated (prepared lib c w) = allocated w
     \<and> highest (heap (prepared lib c w)) = highest (heap w)"
proof (cases c)
  case (MergeMertens_Process b src)
  with assms obtain a where "lookup w (MergeMertens_ptr b) = Some (OMerge a)"
    by (auto simp: valid_call_def MergeMertens_alg_def split: option.splits obj.splits)
  with MergeMertens_Process show ?thesis
    using put_alg_keeps [of w "MergeMertens_ptr b" "OMerge a"] allocated_put [of w "MergeMertens_ptr b"]
      highest_put [of w "MergeMertens_ptr b"]
    by simp
next
  case (AlignMTB_Process b src)
  with assms obtain a where "lookup w (AlignMTB_ptr b) = Some (OAlign a)"
    by (auto simp: valid_call_def AlignMTB_alg_def split: option.splits obj.splits)
  with AlignMTB_Process show ?thesis
    using put_alg_keeps [of w "AlignMTB_ptr b" "OAlign a"] allocated_put [of w "AlignMTB_ptr b"]
      highest_put [of w "AlignMTB_ptr b"]
    by simp
qed (simp_all add: keeps_refl)

lemma before_delivery_facts:
  assumes "valid_call w c"
  shows "trace (before_delivery lib c w) = trace w @ [native_event lib c w]"
    and "allocated (before_delivery lib c w) = allocated w"
    and "highest (heap (before_delivery lib c w)) = highest (heap w)"
    and "valid_handle w hnd \<Longrightarrow> valid_handle (before_delivery lib c w) hnd"
  using prepared_keeps [OF assms, of lib]
  by (simp_all add: before_delivery_def valid_handle_log_event keeps_def)
     (simp_all add: log_event_def allocated_def)

lemma deliverable_before_delivery:
  assumes "valid_call w c" and "native_result lib c w = Inr out"
  shows "deliverable (before_delivery lib c w) out"
proof (cases c)
  case (PencilSketch src dst1 dst2 ss sr sf)
  with assms(2) obtain px1 px2 where "out = OutPencil dst1 dst2 px1 px2"
    by (cases "pencilSketch lib (pix w src) ss sr sf") (auto simp: native_result_def)
  moreover have v: "valid_handle w (HMat dst1)" "valid_handle w (HMat dst2)"
    using assms(1) PencilSketch by (simp_all add: valid_call_def)
  have "valid_handle (before_delivery lib c w) (HMat dst1)"
    "valid_handle (before_delivery lib c w) (HMat dst2)"
    using before_delivery_facts(4) [OF assms(1)] v by blast+
  ultimately show ?thesis by simp
qed (use assms(2) in \<open>auto simp: native_result_def map_sum_def split: sum.splits\<close>)

lemma protocol_failure:
  "protocol l (n, a, Inl e) cb w = (Returned (Some (status_of e l)), log_event (Native n a) w)"
  by (simp add: protocol_def WRAP_def bnd_cv)

lemma protocol_success:
  "deliver out (log_event (Native n a) w) = (Val hs, w1) \<Longrightarrow>
   protocol l (n, a, Inr out) cb w =
     (Returned (map_option (\<lambda>e. status_of e l) (cb hs)), log_event (Callback hs) w1)"
  by (simp add: protocol_def WRAP_def bnd_cv bnd_known [of "deliver out" _ hs w1] invoke_def
      split: option.splits)

lemma run_cases [consumes 1, case_names failure success]:
  assumes "valid_call w c"
  obtains (failure) e where "native_result lib c w = Inl e"
      "run lib c cb w = (Returned (Some (status_of e (END_WRAP_line c))), before_delivery lib c w)"
  | (success) out hs w1 where "native_result lib c w = Inr out"
      "run lib c cb w =
         (Returned (map_option (\<lambda>e. status_of e (END_WRAP_line c)) (cb hs)), log_event (Callback hs) w1)"
      "delivered (before_delivery lib c w) hs w1" "length hs = handles_out out"
proof (cases "native_result lib c w")
  case (Inl e)
  obtain n a r where f: "forwarded lib c w = (n, a, r)" by (cases "forwarded lib c w")
  with Inl have "r = Inl e" by (simp add: native_result_def)
  with f have "run lib c cb w = (Returned (Some (status_of e (END_WRAP_line c))), before_delivery lib c w)"
    by (simp add: run_protocol [OF assms] protocol_failure before_delivery_def native_event_def)
  with Inl show ?thesis by (rule failure)
next
  case (Inr out)
  obtain n a r where f: "forwarded lib c w = (n, a, r)" by (cases "forwarded lib c w")
  with Inr have r: "r = Inr out" by (simp add: native_result_def)
  obtain hs w1 where d: "deliver out (before_delivery lib c w) = (Val hs, w1)"
    and p: "delivered (before_delivery lib c w) hs w1" and n: "length hs = handles_out out"
    using deliver_delivered [OF deliverable_before_delivery [OF assms Inr]] by blast
  have "deliver out (log_event (Native n a) (prepared lib c w)) = (Val hs, w1)"
    using d f by (simp add: before_delivery_def native_event_def)
  then have "run lib c cb w =
      (Returned (map_option (\<lambda>e. status_of e (END_WRAP_line c)) (cb hs)), log_event (Callback hs) w1)"
    using f r by (simp add: run_protocol [OF assms] protocol_success)
  with Inr show ?thesis using p n by (rule success)
qed


subsection \<open>Evaluation and the trace\<close>

lemmas step_defs = WRAP_def bnd_def deref_def deref_Mat_def deref_VecMat_def deref_MergeMertens_def
  deref_AlignMTB_def cv_def new_def alloc_def fresh_def fill_local_def store_Mat_def load_Mat_def
  store_MergeMertens_def store_AlignMTB_def invoke_def log_event_def put_def del_def lookup_def
  Mat_pixels_def VecMat_pixels_def MergeMertens_alg_def AlignMTB_alg_def no_pixels_def same_shape_def
  drop_ref_def referenced_def

lemma callbacks_log_Callback: "callbacks (log_event (Callback hs) w) = callbacks w @ [hs]"
  by (simp add: callbacks_def log_event_def)

lemma callbacks_log_Native: "callbacks (log_event (Native n a) w) = callbacks w"
  by (simp add: callbacks_def log_event_def)

lemma callbacks_trace: "trace w' = trace w \<Longrightarrow> callbacks w' = callbacks w"
  by (simp add: callbacks_def)

lemma callbacks_before_delivery: "callbacks (before_delivery lib c w) = callbacks w"
  by (simp add: before_delivery_def native_event_def callbacks_log_Native split: prod.splits)
     (simp add: callbacks_def; cases c; simp add: put_def)

lemma delivered_trace: "delivered w hs w' \<Longrightarrow> trace w' = trace w"
  by (simp add: delivered_def keeps_def)

lemma callbacks_delivered:
  "delivered (before_delivery lib c w) hs w1 \<Longrightarrow> callbacks w1 = callbacks w"
  using callbacks_trace [OF delivered_trace] callbacks_before_delivery by metis

lemma success_facts:
  assumes v: "valid_call w c" and d: "delivered (before_delivery lib c w) hs w1"
  shows "trace (log_event (Callback hs) w1) = trace w @ [native_event lib c w, Callback hs]"
    and "h \<in> set hs \<Longrightarrow> lookup w h = None \<and>
           (\<exists>hnd. lookup (log_event (Callback hs) w1) h = Some (OHandle hnd)
              \<and> highest (heap w) < handle_ptr hnd
              \<and> valid_handle (log_event (Callback hs) w1) hnd)"
    and "valid_handle w hnd \<Longrightarrow> valid_handle (log_event (Callback hs) w1) hnd"
proof -
  show "trace (log_event (Callback hs) w1) = trace w @ [native_event lib c w, Callback hs]"
    using delivered_trace [OF d] before_delivery_facts(1) [OF v, of lib]
    by (simp add: log_event_def)
  show "valid_handle (log_event (Callback hs) w1) hnd" if "valid_handle w hnd"
    using d before_delivery_facts(4) [OF v that, of lib]
    by (simp add: delivered_def keeps_def valid_handle_log_event)
  show "lookup w h = None \<and>
           (\<exists>hnd. lookup (log_event (Callback hs) w1) h = Some (OHandle hnd)
              \<and> highest (heap w) < handle_ptr hnd
              \<and> valid_handle (log_event (Callback hs) w1) hnd)" if "h \<in> set hs"
    using d that before_delivery_facts(3) [OF v, of lib]
    by (auto simp: delivered_def valid_handle_log_event lookup_log_event lookup_above_highest)
qed

lemma sample_run_raising:
  "run sample_lib (FastNlMeansDenoising (Mat 2)) raising sample_world =
   (Returned (Some (CvStatus InternalError ''callback failed'' this_file 64)),
    \<lparr>heap = [(12, OHandle (HMat (Mat 11))), (11, OMat (Some 10)), (10, OBuf (Pixels 1 1 0 [128])),
       (1, OBuf (Pixels 1 1 0 [128])), (2, OMat (Some 1)), (3, OMat None), (4, OMat None),
       (5, OVec [Some 1]), (6, OMerge (Alg [])), (7, OAlign (Alg [])),
       (8, OBuf (Pixels 2 2 0 [1, 1, 1, 1])), (9, OMat (Some 8))],
     trace = [Native ''cv::fastNlMeansDenoising'' [ARef 2, AFloat 0x40400000, AInt 7, AInt 21],
              Callback [12]]\<rparr>)"
  by (simp add: FastNlMeansDenoising_Async_def step_defs sample_lib_def sample_world_def raising_def)

lemma WRAP_line:
  "snd (WRAP l body w) = snd (WRAP l' body w)
   \<and> (fst (WRAP l body w) = Returned None \<longleftrightarrow> fst (WRAP l' body w) = Returned None)"
  by (simp add: WRAP_def split: prod.splits res.splits)

lemma sample_run_pencil:
  "run sample_lib (PencilSketch (Mat 2) (Mat 3) (Mat 4) 0x42700000 0x3D8F5C29 0x3D4CCCCD) returning sample_world =
   (Returned None,
    \<lparr>heap =
     [(15, OHandle (HMat (Mat 14))), (14, OMat (Some 11)),
      (13, OHandle (HMat (Mat 12))), (12, OMat (Some 10)),
      (11, OBuf (Pixels 1 1 0 [128])), (10, OBuf (Pixels 1 1 0 [128])),
      (1, OBuf (Pixels 1 1 0 [128])), (2, OMat (Some 1)),
      (3, OMat (Some 10)), (4, OMat (Some 11)), (5, OVec [Some 1]),
      (6, OMerge (Alg [])), (7, OAlign (Alg [])),
      (8, OBuf (Pixels 2 2 0 [1, 1, 1, 1])), (9, OMat (Some 8))],
     trace =
       [Native ''cv::pencilSketch''
         [ARef 2, ARef 3, ARef 4, AFloat 0x42700000, AFloat 0x3D8F5C29, AFloat 0x3D4CCCCD],
        Callback [13, 15]]\<rparr>)"
  by (simp add: PencilSketch_Async_def step_defs sample_lib_def sample_world_def returning_def)

lemma one_handle_except_PencilSketch:
  assumes "valid_call w c" and "run lib c cb w = (Returned None, w')"
  shows "\<exists>hs. callbacks w' = callbacks w @ [hs]
           \<and> length hs = (case c of PencilSketch _ _ _ _ _ _ \<Rightarrow> 2 | _ \<Rightarrow> 1)
           \<and> cb_arity (callback_param c) = 1"
  using assms(1)
proof (cases rule: run_cases [where lib = lib and cb = cb])
  case (failure e)
  with assms(2) show ?thesis by simp
next
  case (success out hs w1)
  have "handles_out out = (case c of PencilSketch _ _ _ _ _ _ \<Rightarrow> 2 | _ \<Rightarrow> 1)"
    using success(1) by (cases c) (auto simp: native_result_def map_sum_def split: sum.splits)
  moreover have "cb_arity (callback_param c) = 1" by (cases c) simp_all
  ultimately show ?thesis
    using success assms(2) by (auto simp: callbacks_log_Callback callbacks_delivered)
qed

subsection \<open>Releasing an output handle\<close>





lemma handle_ptr_footprint: "handle_ptr i \<in> footprint w i"
  by (cases i) simp_all

lemma footprint_object:
  assumes "valid_handle w i" and "a \<in> footprint w i"
  shows "(a = handle_ptr i \<and> (\<exists>ob. lookup w a = Some ob \<and> (\<forall>px. ob \<noteq> OBuf px) \<and> (\<forall>hnd. ob \<noteq> OHandle hnd)))
       \<or> ((\<exists>px. lookup w a = Some (OBuf px)) \<and> referenced w a)"
proof (cases i)
  case (HMat m)
  with assms show ?thesis
    by (auto simp: Mat_pixels_def split: option.splits obj.splits intro: referencedI)
next
  case (HVecMat v)
  show ?thesis
  proof (cases "a = VecMat_ptr v")
    case True
    with assms HVecMat show ?thesis
      by (auto simp: VecMat_pixels_def split: option.splits obj.splits)
  next
    case False
    with assms HVecMat obtain hdrs where l: "lookup w (VecMat_ptr v) = Some (OVec hdrs)"
      and a: "Some a \<in> set hdrs" and t: "those (map (hdr_pixels w) hdrs) \<noteq> None"
      by (auto simp: VecMat_pixels_def split: option.splits obj.splits)
    from t a have "hdr_pixels w (Some a) \<noteq> None"
      unfolding those_None_iff by blast
    then have "\<exists>px. lookup w a = Some (OBuf px)"
      by (auto split: option.splits obj.splits)
    moreover have "referenced w a"
      using l a by (auto intro: referencedI)
    ultimately show ?thesis by blast
  qed
next
  case (HMergeMertens b)
  with assms show ?thesis by (auto simp: MergeMertens_alg_def split: option.splits obj.splits)
next
  case (HAlignMTB b)
  with assms show ?thesis by (auto simp: AlignMTB_alg_def split: option.splits obj.splits)
qed






lemma sample_pencil_shares_buffer:
  "lookup (snd (run sample_lib (PencilSketch (Mat 2) (Mat 3) (Mat 4) 0x42700000 0x3D8F5C29 0x3D4CCCCD)
      returning sample_world)) 12 = Some (OMat (Some 10))
   \<and> lookup (snd (run sample_lib (PencilSketch (Mat 2) (Mat 3) (Mat 4) 0x42700000 0x3D8F5C29 0x3D4CCCCD)
      returning sample_world)) 3 = Some (OMat (Some 10))"
  unfolding sample_run_pencil by (simp add: lookup_def)

subsection \<open>Input handles are borrowed\<close>

lemma handles_fresh_trans:
  "handles_fresh w w' \<Longrightarrow> highest (heap w) \<le> highest (heap w') \<Longrightarrow> handles_fresh w' w'' \<Longrightarrow> handles_fresh w w''"
  unfolding handles_fresh_def by (meson le_less_trans)

lemma handles_fresh_same:
  "(\<And>h hnd. lookup w' h = Some (OHandle hnd) \<Longrightarrow> lookup w h = Some (OHandle hnd)) \<Longrightarrow> handles_fresh w w'"
  by (auto simp: handles_fresh_def)

lemma store_Mat_handles:
  "store_Mat m px w = (Val (), w') \<Longrightarrow> handles_fresh w w'"
  by (rule handles_fresh_same)
     (auto simp: store_Mat_def alloc_def lookup_put lookup_cons lookup_del drop_ref_def
           split: option.splits obj.splits if_splits)

lemma fill_locals_handles:
  "fill_locals pxs w = (Val hs, w') \<Longrightarrow> lookup w' h = Some (OHandle hnd) \<Longrightarrow> lookup w h = Some (OHandle hnd)"
proof (induction pxs arbitrary: w hs)
  case Nil
  then show ?case by simp
next
  case (Cons px pxs)
  let ?w1 = "w\<lparr>heap := (Suc (highest (heap w)), OBuf px) # heap w\<rparr>"
  obtain hs' where "fill_locals pxs ?w1 = (Val hs', w')"
    using Cons.prems(1) fill_locals_grows [of pxs ?w1]
    by (auto simp: bnd_def fill_local_eq)
  from Cons.IH [OF this Cons.prems(2)] show ?case
    by (simp add: lookup_cons split: if_splits)
qed

lemma deliver_handles_fresh:
  assumes "deliverable w out" and "deliver out w = (Val hs, w')"
  shows "handles_fresh w w'"
proof (cases out)
  case (OutMat px)
  from assms(2) show ?thesis
    unfolding OutMat deliver_OutMat
    by (auto simp: handles_fresh_def lookup_def split: if_splits)
next
  case (OutMerge a)
  from assms(2) show ?thesis
    unfolding OutMerge deliver_OutMerge
    by (auto simp: handles_fresh_def lookup_def split: if_splits)
next
  case (OutAlign a)
  from assms(2) show ?thesis
    unfolding OutAlign deliver_OutAlign
    by (auto simp: handles_fresh_def lookup_def split: if_splits)
next
  case (OutVec pxs)
  obtain vec w1 where f: "fill_locals pxs w = (Val vec, w1)" and g: "grows w w1"
    using fill_locals_grows by blast
  let ?t = "highest (heap w1)"
  let ?w' = "w1\<lparr>heap := (Suc (Suc ?t), OHandle (HVecMat (VecMat (Suc ?t)))) # (Suc ?t, OVec vec) # heap w1\<rparr>"
  have "deliver (OutVec pxs) w = (Val [Suc (Suc ?t)], ?w')"
    by (simp add: bnd_known [of "fill_locals pxs" w vec w1, OF f] bnd_new ret_def)
  with assms(2) OutVec have w': "w' = ?w'" by simp
  show ?thesis
    unfolding handles_fresh_def w'
    using fill_locals_handles [OF f] grows_highest [OF g]
    by (auto simp: lookup_def [of ?w'] lookup_def [of w1, symmetric] split: if_splits)
next
  case (OutPencil dst1 dst2 px1 px2)
  with assms(1) have v1: "valid_handle w (HMat dst1)" and v2: "valid_handle w (HMat dst2)" by simp_all
  obtain w1 where s1: "store_Mat dst1 px1 w = (Val (), w1)" and k1: "keeps w w1"
    using store_Mat_keeps [of w dst1 px1] v1 by auto
  have "valid_handle w1 (HMat dst2)" using k1 v2 by (rule keeps_valid)
  then obtain w2 where s2: "store_Mat dst2 px2 w1 = (Val (), w2)" and k2: "keeps w1 w2"
    using store_Mat_keeps [of w1 dst2 px2] by auto
  have k: "keeps w w2" using k1 k2 by (rule keeps_trans)
  have f2: "handles_fresh w w2"
    using store_Mat_handles [OF s1] keeps_highest [OF k1] store_Mat_handles [OF s2]
    by (rule handles_fresh_trans)
  have "valid_handle w2 (HMat dst1)" using k v1 by (rule keeps_valid)
  then obtain d1 where l1: "load_Mat dst1 w2 = (Val d1, w2)"
    using load_Mat_valid [of w2 dst1] by auto
  let ?t = "highest (heap w2)"
  let ?w4 = "w2\<lparr>heap := (Suc (Suc ?t), OHandle (HMat (Mat (Suc ?t)))) # (Suc ?t, OMat d1) # heap w2\<rparr>"
  have g4: "grows w2 ?w4" by (rule grows_cons2)
  have "valid_handle w2 (HMat dst2)" using k v2 by (rule keeps_valid)
  with g4 have "valid_handle ?w4 (HMat dst2)" by (rule grows_valid_handle)
  then obtain d2 where l2: "load_Mat dst2 ?w4 = (Val d2, ?w4)"
    using load_Mat_valid [of ?w4 dst2] by auto
  let ?w6 = "?w4\<lparr>heap := (Suc (Suc (Suc (Suc ?t))), OHandle (HMat (Mat (Suc (Suc (Suc ?t))))))
                # (Suc (Suc (Suc ?t)), OMat d2) # heap ?w4\<rparr>"
  have "deliver (OutPencil dst1 dst2 px1 px2) w = (Val [Suc (Suc ?t), Suc (Suc (Suc (Suc ?t)))], ?w6)"
    by (simp add: bnd_known [of "store_Mat dst1 px1" w "()" w1, OF s1]
        bnd_known [of "store_Mat dst2 px2" w1 "()" w2, OF s2]
        bnd_known [of "load_Mat dst1" w2 d1 w2, OF l1] bnd_new
        bnd_known [of "load_Mat dst2" ?w4 d2 ?w4, OF l2] ret_def)
  with assms(2) OutPencil have w': "w' = ?w6" by simp
  have "handles_fresh w2 ?w6"
    unfolding handles_fresh_def
    by (auto simp: lookup_def split: if_splits)
  with f2 keeps_highest [OF k] show ?thesis
    unfolding w' by (rule handles_fresh_trans)
qed

lemma prepared_handles:
  assumes "valid_call w c" and "lookup (before_delivery lib c w) h = Some (OHandle hnd)"
  shows "lookup w h = Some (OHandle hnd)"
proof (cases c)
  case (MergeMertens_Process b src)
  with assms show ?thesis
    by (auto simp: before_delivery_def lookup_log_event lookup_put split: if_splits)
next
  case (AlignMTB_Process b src)
  with assms show ?thesis
    by (auto simp: before_delivery_def lookup_log_event lookup_put split: if_splits)
qed (use assms in \<open>simp_all add: before_delivery_def lookup_log_event\<close>)

lemma run_handles_fresh:
  assumes "valid_call w c"
  shows "handles_fresh w (snd (run lib c cb w))"
  using assms
proof (cases rule: run_cases [where lib = lib and cb = cb])
  case (failure e)
  then show ?thesis
    using prepared_handles [OF assms, of lib] by (auto intro: handles_fresh_same)
next
  case (success out hs w1)
  obtain hs' w1' where d: "deliver out (before_delivery lib c w) = (Val hs', w1')"
    and p: "delivered (before_delivery lib c w) hs' w1'"
    using deliver_delivered [OF deliverable_before_delivery [OF assms success(1)]] by blast
  have "run lib c cb w =
      (Returned (map_option (\<lambda>e. status_of e (END_WRAP_line c)) (cb hs')), log_event (Callback hs') w1')"
  proof -
    obtain n a r where f: "forwarded lib c w = (n, a, r)" by (cases "forwarded lib c w")
    with success(1) have r: "r = Inr out" by (simp add: native_result_def)
    have "deliver out (log_event (Native n a) (prepared lib c w)) = (Val hs', w1')"
      using d f by (simp add: before_delivery_def native_event_def)
    then show ?thesis
      using f r by (simp add: run_protocol [OF assms] protocol_success)
  qed
  then have w': "snd (run lib c cb w) = log_event (Callback hs') w1'" by simp
  have "handles_fresh (before_delivery lib c w) w1'"
    using deliverable_before_delivery [OF assms success(1)] d by (rule deliver_handles_fresh)
  then show ?thesis
    unfolding w' handles_fresh_def
    using prepared_handles [OF assms, of lib] before_delivery_facts(3) [OF assms, of lib]
    by (auto simp: lookup_log_event)
qed

lemma run_keeps_valid:
  assumes "valid_call w c" and "valid_handle w i"
  shows "valid_handle (snd (run lib c cb w)) i"
  using assms(1)
proof (cases rule: run_cases [where lib = lib and cb = cb])
  case (failure e)
  then show ?thesis using before_delivery_facts(4) [OF assms] by simp
next
  case (success out hs w1)
  then show ?thesis using success_facts(3) [OF assms(1) success(3) assms(2)] by simp
qed

lemma run_keeps_valid_call: "valid_call w c \<Longrightarrow> valid_call (snd (run lib c cb w)) c"
  unfolding valid_call_def list_all_iff
  using run_keeps_valid [unfolded valid_call_def list_all_iff] by blast

lemma repeat_call_valid: "valid_call w c \<Longrightarrow> valid_call (repeat_call n lib c cb w) c"
  by (induction n arbitrary: w) (simp_all add: run_keeps_valid_call)

subsection \<open>Calling \<open>process\<close> twice\<close>












subsection \<open>A handle that points to no live object\<close>

lemma bnd_deref_Mat_cases:
  "bnd (deref_Mat m) f w = (case Mat_pixels w m of None \<Rightarrow> (Undefined, w) | Some px \<Rightarrow> f px w)"
  by (simp add: bnd_def deref_Mat_def deref_def split: option.splits)

lemma bnd_deref_VecMat_cases:
  "bnd (deref_VecMat m) f w = (case VecMat_pixels w m of None \<Rightarrow> (Undefined, w) | Some px \<Rightarrow> f px w)"
  by (simp add: bnd_def deref_VecMat_def deref_def split: option.splits)

lemma bnd_deref_MergeMertens_cases:
  "bnd (deref_MergeMertens m) f w = (case MergeMertens_alg w m of None \<Rightarrow> (Undefined, w) | Some px \<Rightarrow> f px w)"
  by (simp add: bnd_def deref_MergeMertens_def deref_def split: option.splits)

lemma bnd_deref_AlignMTB_cases:
  "bnd (deref_AlignMTB m) f w = (case AlignMTB_alg w m of None \<Rightarrow> (Undefined, w) | Some px \<Rightarrow> f px w)"
  by (simp add: bnd_def deref_AlignMTB_def deref_def split: option.splits)

lemma bnd_load_Mat_cases:
  "bnd (load_Mat m) (\<lambda>_. f) w = (case Mat_pixels w m of None \<Rightarrow> (Undefined, w) | Some px \<Rightarrow> f w)"
  by (auto simp: bnd_def load_Mat_def Mat_pixels_def split: option.splits obj.splits)

lemma invalid_handle_crashes: "\<not> valid_call w c \<Longrightarrow> fst (run lib c cb w) = Crashed"
  by (cases c)
     (auto simp: valid_call_def entry_defs WRAP_def bnd_deref_Mat_cases bnd_deref_VecMat_cases
        bnd_deref_MergeMertens_cases bnd_deref_AlignMTB_cases bnd_load_Mat_cases
      split: option.splits)

subsection \<open>Where the pixels of an output live\<close>















section \<open>The claims\<close>

text \<open>
  C1 as stated does not hold for a callback that raises: it has been invoked once, on a
  handle allocated for it, and the entry point returns a failure status.
\<close>

theorem callback_once_iff_OK_counterexample:
  "fst (run sample_lib (FastNlMeansDenoising (Mat 2)) raising sample_world) \<noteq> Returned None
   \<and> callbacks (snd (run sample_lib (FastNlMeansDenoising (Mat 2)) raising sample_world))
       = callbacks sample_world @ [[12]]
   \<and> lookup sample_world 12 = None
   \<and> lookup (snd (run sample_lib (FastNlMeansDenoising (Mat 2)) raising sample_world)) 12
       = Some (OHandle (HMat (Mat 11)))"
  unfolding sample_run_raising
  by (simp add: callbacks_def lookup_def sample_world_def)

text \<open>
  C1, as the code has it. With valid input handles and a callback that returns: the entry
  point returns the null status exactly when the callback was invoked exactly once during
  the call; and when it returns a failure status, the callback was not invoked and nothing
  was allocated.
\<close>

theorem callback_once_iff_OK:
  assumes "valid_call w c" and "\<forall>hs. cb hs = None"
  shows "\<exists>st w'. run lib c cb w = (Returned st, w')
           \<and> (st = None \<longleftrightarrow> (\<exists>hs. callbacks w' = callbacks w @ [hs]))
           \<and> (st \<noteq> None \<longrightarrow> callbacks w' = callbacks w \<and> allocated w' = allocated w)"
  using assms(1)
proof (cases rule: run_cases [where lib = lib and cb = cb])
  case (failure e)
  then show ?thesis
    using before_delivery_facts(2) [OF assms(1), of lib]
    by (simp add: callbacks_before_delivery)
next
  case (success out hs w1)
  then show ?thesis
    using assms(2) by (simp add: callbacks_log_Callback callbacks_delivered)
qed

theorem callback_once_iff_OK_witness:
  "valid_call sample_world (SeamlessClone (Mat 2) (Mat 2) (Mat 9) (Point 0 0) 1)
   \<and> (\<forall>hs. returning hs = None)
   \<and> (\<exists>st w'. run sample_lib (SeamlessClone (Mat 2) (Mat 2) (Mat 9) (Point 0 0) 1) returning sample_world
          = (Returned st, w')
        \<and> (st = None \<longleftrightarrow> (\<exists>hs. callbacks w' = callbacks sample_world @ [hs]))
        \<and> (st \<noteq> None \<longrightarrow> callbacks w' = callbacks sample_world \<and> allocated w' = allocated sample_world))"
proof -
  have v: "valid_call sample_world (SeamlessClone (Mat 2) (Mat 2) (Mat 9) (Point 0 0) 1)"
    by (simp add: valid_call_def step_defs sample_world_def)
  have r: "\<forall>hs. returning hs = None" by (simp add: returning_def)
  from callback_once_iff_OK [OF v r, of sample_lib] v r show ?thesis by blast
qed

text \<open>
  C2. With valid input handles: an exception of the native library yields a status of kind
  \<open>LibraryError\<close> that carries the library's message and the file and line of the catch
  site; any other condition yields a status of kind \<open>InternalError\<close>; and when the native
  call succeeds and the callback returns, the entry point returns the null status.
\<close>

theorem status_of_every_outcome:
  assumes "valid_call w c"
  shows "(\<forall>m. native_result lib c w = Inl (CvException m) \<longrightarrow>
            fst (run lib c cb w) = Returned (Some (CvStatus LibraryError m this_file (END_WRAP_line c))))
       \<and> (\<forall>m. native_result lib c w = Inl (Unclassified m) \<longrightarrow>
            fst (run lib c cb w) = Returned (Some (CvStatus InternalError m this_file (END_WRAP_line c))))
       \<and> ((\<exists>out. native_result lib c w = Inr out) \<and> (\<forall>hs. cb hs = None) \<longrightarrow>
            fst (run lib c cb w) = Returned None)"
  using assms
proof (cases rule: run_cases [where lib = lib and cb = cb])
  case (failure e)
  then show ?thesis by (cases e) auto
next
  case (success out hs w1)
  then show ?thesis by auto
qed

theorem status_of_every_outcome_witness:
  "valid_call sample_world (SeamlessClone (Mat 2) (Mat 2) (Mat 9) (Point 0 0) 1)
   \<and> native_result sample_lib (SeamlessClone (Mat 2) (Mat 2) (Mat 9) (Point 0 0) 1) sample_world
        = Inl (CvException ''mask size'')
   \<and> fst (run sample_lib (SeamlessClone (Mat 2) (Mat 2) (Mat 9) (Point 0 0) 1) returning sample_world)
        = Returned (Some (CvStatus LibraryError ''mask size'' this_file 20))
   \<and> valid_call sample_world (Stylization (Mat 2) 0 0)
   \<and> native_result sample_lib (Stylization (Mat 2) 0 0) sample_world = Inl (Unclassified ''out of memory'')
   \<and> fst (run sample_lib (Stylization (Mat 2) 0 0) returning sample_world)
        = Returned (Some (CvStatus InternalError ''out of memory'' this_file 166))
   \<and> valid_call sample_world (SeamlessClone (Mat 2) (Mat 9) (Mat 2) (Point 0 0) 1)
   \<and> native_result sample_lib (SeamlessClone (Mat 2) (Mat 9) (Mat 2) (Point 0 0) 1) sample_world
        = Inr (OutMat (Pixels 2 2 0 [1, 1, 1, 1]))
   \<and> (\<forall>hs. returning hs = None)
   \<and> fst (run sample_lib (SeamlessClone (Mat 2) (Mat 9) (Mat 2) (Point 0 0) 1) returning sample_world)
        = Returned None"
proof -
  have v1: "valid_call sample_world (SeamlessClone (Mat 2) (Mat 2) (Mat 9) (Point 0 0) 1)"
    and v2: "valid_call sample_world (Stylization (Mat 2) 0 0)"
    and v3: "valid_call sample_world (SeamlessClone (Mat 2) (Mat 9) (Mat 2) (Point 0 0) 1)"
    by (simp_all add: valid_call_def step_defs sample_world_def)
  have n1: "native_result sample_lib (SeamlessClone (Mat 2) (Mat 2) (Mat 9) (Point 0 0) 1) sample_world
        = Inl (CvException ''mask size'')"
    and n2: "native_result sample_lib (Stylization (Mat 2) 0 0) sample_world = Inl (Unclassified ''out of memory'')"
    and n3: "native_result sample_lib (SeamlessClone (Mat 2) (Mat 9) (Mat 2) (Point 0 0) 1) sample_world
        = Inr (OutMat (Pixels 2 2 0 [1, 1, 1, 1]))"
    by (simp_all add: native_result_def pix_def step_defs sample_world_def sample_lib_def)
  have r: "\<forall>hs. returning hs = None" by (simp add: returning_def)
  have "fst (run sample_lib (SeamlessClone (Mat 2) (Mat 2) (Mat 9) (Point 0 0) 1) returning sample_world)
        = Returned (Some (CvStatus LibraryError ''mask size'' this_file 20))"
    using status_of_every_outcome [OF v1, of sample_lib returning] n1 by simp
  moreover have "fst (run sample_lib (Stylization (Mat 2) 0 0) returning sample_world)
        = Returned (Some (CvStatus InternalError ''out of memory'' this_file 166))"
    using status_of_every_outcome [OF v2, of sample_lib returning] n2 by simp
  moreover have "fst (run sample_lib (SeamlessClone (Mat 2) (Mat 9) (Mat 2) (Point 0 0) 1) returning sample_world)
        = Returned None"
    using status_of_every_outcome [OF v3, of sample_lib returning] n3 r by simp
  ultimately show ?thesis
    using v1 v2 v3 n1 n2 n3 r by blast
qed




text \<open>
  C4, at a concrete call. The parameter \<^verbatim>\<open>callback\<close> of \<^verbatim>\<open>PencilSketch_Async\<close> is declared
  with the one-argument type \<^verbatim>\<open>CvCallback_1\<close>, and the body invokes it once with two
  handles.
\<close>

theorem PencilSketch_callback_type:
  "callback_param (PencilSketch (Mat 2) (Mat 3) (Mat 4) 0x42700000 0x3D8F5C29 0x3D4CCCCD) = CvCallback_1
   \<and> cb_arity CvCallback_1 = 1
   \<and> fst (run sample_lib (PencilSketch (Mat 2) (Mat 3) (Mat 4) 0x42700000 0x3D8F5C29 0x3D4CCCCD)
        returning sample_world) = Returned None
   \<and> callbacks (snd (run sample_lib (PencilSketch (Mat 2) (Mat 3) (Mat 4) 0x42700000 0x3D8F5C29 0x3D4CCCCD)
        returning sample_world)) = [[13, 15]]"
  unfolding sample_run_pencil by (simp add: callbacks_def)

text \<open>
  C5. For every operation with a parameter-free and a parameterised form, the parameter-free
  form leaves the same world (heap and trace, so the same delivered output) as the
  parameterised form called with the library's default arguments, and succeeds exactly when
  that one does; in particular, when the library's defaults are h = 3.0,
  templateWindowSize = 7 and searchWindowSize = 21, \<open>FastNlMeansDenoising src\<close> and
  \<open>FastNlMeansDenoisingWithParams src 3.0 7 21\<close> leave the same world.
\<close>

theorem defaults_are_forwarded:
  "snd (run lib c cb w) = snd (run lib (with_defaults lib c) cb w)
   \<and> (fst (run lib c cb w) = Returned None \<longleftrightarrow> fst (run lib (with_defaults lib c) cb w) = Returned None)
   \<and> (default_h lib = 0x40400000 \<and> default_templateWindowSize lib = 7 \<and> default_searchWindowSize lib = 21
        \<longrightarrow> snd (run lib (FastNlMeansDenoising src) cb w)
              = snd (run lib (FastNlMeansDenoisingWithParams src 0x40400000 7 21) cb w))"
proof -
  have a: "snd (run lib c cb w) = snd (run lib (with_defaults lib c) cb w)
   \<and> (fst (run lib c cb w) = Returned None \<longleftrightarrow> fst (run lib (with_defaults lib c) cb w) = Returned None)"
    for c
    by (cases c) (simp_all add: entry_defs WRAP_line)
  from a [of "FastNlMeansDenoising src"] a [of c] show ?thesis
    by auto
qed

theorem defaults_are_forwarded_witness:
  "default_h sample_lib = 0x40400000 \<and> default_templateWindowSize sample_lib = 7
   \<and> default_searchWindowSize sample_lib = 21
   \<and> snd (run sample_lib (FastNlMeansDenoising (Mat 2)) returning sample_world)
       = snd (run sample_lib (FastNlMeansDenoisingWithParams (Mat 2) 0x40400000 7 21) returning sample_world)"
proof -
  have d: "default_h sample_lib = 0x40400000 \<and> default_templateWindowSize sample_lib = 7
   \<and> default_searchWindowSize sample_lib = 21"
    by (simp add: sample_lib_def)
  with defaults_are_forwarded [of sample_lib "FastNlMeansDenoising (Mat 2)" returning sample_world "Mat 2"]
  show ?thesis by blast
qed




text \<open>
  C7. With valid input handles, an entry point makes exactly one native call, the one of
  \<open>forwarded\<close> (the operation's own arguments, unchanged and in their order), and its
  status is decided by the answer alone: a native exception becomes the returned failure
  status, and when the native routine accepts its arguments and the callback returns, the
  entry point returns the null status. The shim rejects nothing by itself.
\<close>

theorem parameters_forwarded_unchecked:
  assumes "valid_call w c"
  shows "\<exists>st w'. run lib c cb w = (Returned st, w')
      \<and> (\<exists>rest. trace w' = trace w @ native_event lib c w # rest \<and> (\<forall>ev\<in>set rest. \<exists>hs. ev = Callback hs))
      \<and> (\<forall>e. native_result lib c w = Inl e \<longrightarrow> st = Some (status_of e (END_WRAP_line c)))
      \<and> ((\<exists>out. native_result lib c w = Inr out) \<and> (\<forall>hs. cb hs = None) \<longrightarrow> st = None)"
  using assms
proof (cases rule: run_cases [where lib = lib and cb = cb])
  case (failure e)
  then show ?thesis
    using before_delivery_facts(1) [OF assms, of lib] by simp
next
  case (success out hs w1)
  then show ?thesis
    using success_facts(1) [OF assms success(3)] by auto
qed

theorem parameters_forwarded_unchecked_witness:
  "valid_call sample_world (FastNlMeansDenoisingColoredMulti (VecMat 5) 7 2)
   \<and> native_event sample_lib (FastNlMeansDenoisingColoredMulti (VecMat 5) 7 2) sample_world
       = Native ''cv::fastNlMeansDenoisingColoredMulti''
           [ARef 5, AInt 7, AInt 2, AFloat 0x40400000, AFloat 0x40400000, AInt 7, AInt 21]
   \<and> native_result sample_lib (FastNlMeansDenoisingColoredMulti (VecMat 5) 7 2) sample_world
       = Inl (CvException ''imgToDenoiseIndex'')
   \<and> (\<exists>w'. run sample_lib (FastNlMeansDenoisingColoredMulti (VecMat 5) 7 2) returning sample_world
          = (Returned (Some (CvStatus LibraryError ''imgToDenoiseIndex'' this_file 47)), w')
        \<and> trace w' = trace sample_world @
             [Native ''cv::fastNlMeansDenoisingColoredMulti''
                [ARef 5, AInt 7, AInt 2, AFloat 0x40400000, AFloat 0x40400000, AInt 7, AInt 21]])
   \<and> valid_call sample_world (FastNlMeansDenoisingColoredMulti (VecMat 5) 0 1)
   \<and> native_result sample_lib (FastNlMeansDenoisingColoredMulti (VecMat 5) 0 1) sample_world
       = Inr (OutMat (Pixels 1 1 0 [128]))
   \<and> (\<forall>hs. returning hs = None)
   \<and> fst (run sample_lib (FastNlMeansDenoisingColoredMulti (VecMat 5) 0 1) returning sample_world)
       = Returned None"
proof -
  let ?c = "FastNlMeansDenoisingColoredMulti (VecMat 5) 7 2"
  let ?d = "FastNlMeansDenoisingColoredMulti (VecMat 5) 0 1"
  have v: "valid_call sample_world ?c" and v': "valid_call sample_world ?d"
    by (simp_all add: valid_call_def step_defs sample_world_def)
  have e: "native_event sample_lib ?c sample_world
       = Native ''cv::fastNlMeansDenoisingColoredMulti''
           [ARef 5, AInt 7, AInt 2, AFloat 0x40400000, AFloat 0x40400000, AInt 7, AInt 21]"
    by (simp add: native_event_def sample_lib_def)
  have n: "native_result sample_lib ?c sample_world = Inl (CvException ''imgToDenoiseIndex'')"
    and n': "native_result sample_lib ?d sample_world = Inr (OutMat (Pixels 1 1 0 [128]))"
    by (simp_all add: native_result_def vpix_def step_defs sample_world_def sample_lib_def)
  have r: "\<forall>hs. returning hs = None" by (simp add: returning_def)
  obtain st w' rest where run: "run sample_lib ?c returning sample_world = (Returned st, w')"
    and t: "trace w' = trace sample_world @ native_event sample_lib ?c sample_world # rest"
    and s: "st = Some (status_of (CvException ''imgToDenoiseIndex'') (END_WRAP_line ?c))"
    using parameters_forwarded_unchecked [OF v, of sample_lib returning] n by auto
  have "trace w' = [Native ''cv::fastNlMeansDenoisingColoredMulti''
                [ARef 5, AInt 7, AInt 2, AFloat 0x40400000, AFloat 0x40400000, AInt 7, AInt 21]]"
    using run by (simp add: FastNlMeansDenoisingColoredMulti_Async_def step_defs sample_lib_def sample_world_def, auto)
  then have 1: "\<exists>w'. run sample_lib ?c returning sample_world
          = (Returned (Some (CvStatus LibraryError ''imgToDenoiseIndex'' this_file 47)), w')
        \<and> trace w' = trace sample_world @
             [Native ''cv::fastNlMeansDenoisingColoredMulti''
                [ARef 5, AInt 7, AInt 2, AFloat 0x40400000, AFloat 0x40400000, AInt 7, AInt 21]]"
    using run s by (simp add: sample_world_def)
  have 2: "fst (run sample_lib ?d returning sample_world) = Returned None"
    using parameters_forwarded_unchecked [OF v', of sample_lib returning] n' r by auto
  from v v' e n n' r 1 2 show ?thesis by blast
qed

text \<open>
  C8. When an entry point returns the null status, the world it returns already holds the
  callback invocation, as the last event of the call and after the native call; the
  arguments are handle structures allocated during the call, each wrapping a native object
  allocated during the call. An entry point is one total function from world to world: it
  has no step at which anything else could run.
\<close>

theorem callback_before_return:
  assumes "valid_call w c" and "run lib c cb w = (Returned None, w')"
  shows "\<exists>hs. trace w' = trace w @ [native_event lib c w, Callback hs] \<and> hs \<noteq> []
           \<and> (\<forall>h\<in>set hs. lookup w h = None
                \<and> (\<exists>hnd. lookup w' h = Some (OHandle hnd) \<and> lookup w (handle_ptr hnd) = None
                      \<and> valid_handle w' hnd))"
  using assms(1)
proof (cases rule: run_cases [where lib = lib and cb = cb])
  case (failure e)
  with assms(2) show ?thesis by simp
next
  case (success out hs w1)
  with assms(2) have w': "w' = log_event (Callback hs) w1" by simp
  have "hs \<noteq> []" using success(4) by (cases out) auto
  moreover have "lookup w h = None
      \<and> (\<exists>hnd. lookup w' h = Some (OHandle hnd) \<and> lookup w (handle_ptr hnd) = None
            \<and> valid_handle w' hnd)" if "h \<in> set hs" for h
    using success_facts(2) [OF assms(1) success(3) that] lookup_above_highest [of w] unfolding w'
    by blast
  ultimately show ?thesis
    using success_facts(1) [OF assms(1) success(3)] unfolding w'
    by blast
qed

theorem callback_before_return_witness:
  "valid_call sample_world (MergeMertens_Process (MergeMertens 6) (VecMat 5))
   \<and> (\<exists>w'. run sample_lib (MergeMertens_Process (MergeMertens 6) (VecMat 5)) returning sample_world
          = (Returned None, w')
      \<and> (\<exists>hs. trace w' = trace sample_world @
              [native_event sample_lib (MergeMertens_Process (MergeMertens 6) (VecMat 5)) sample_world,
               Callback hs] \<and> hs \<noteq> []
           \<and> (\<forall>h\<in>set hs. lookup sample_world h = None
                \<and> (\<exists>hnd. lookup w' h = Some (OHandle hnd) \<and> lookup sample_world (handle_ptr hnd) = None
                      \<and> valid_handle w' hnd))))"
proof -
  have v: "valid_call sample_world (MergeMertens_Process (MergeMertens 6) (VecMat 5))"
    by (simp add: valid_call_def step_defs sample_world_def)
  obtain w' where r: "run sample_lib (MergeMertens_Process (MergeMertens 6) (VecMat 5)) returning sample_world
          = (Returned None, w')"
    by (simp add: MergeMertens_Process_Async_def step_defs sample_lib_def sample_world_def returning_def)
  from callback_before_return [OF v r] v r show ?thesis by blast
qed

text \<open>
  C9. With valid input handles, after the entry point has returned: every input handle
  still points to a live native object of its type (nothing was freed); every handle
  structure that wraps the native object of an input was there before the call (the shim
  made no handle of its own on an input's native object); and the same call is valid again
  after being made any number of times, so an algorithm handle serves any number of
  \<open>process\<close> calls.
\<close>

theorem inputs_only_borrowed:
  assumes "valid_call w c"
  shows "(\<forall>i\<in>set (input_handles c). valid_handle (snd (run lib c cb w)) i)
       \<and> (\<forall>h hnd. lookup (snd (run lib c cb w)) h = Some (OHandle hnd)
              \<and> handle_ptr hnd \<in> handle_ptr ` set (input_handles c)
            \<longrightarrow> lookup w h = Some (OHandle hnd))
       \<and> valid_call (repeat_call n lib c cb w) c"
proof (intro conjI ballI allI impI)
  fix i assume "i \<in> set (input_handles c)"
  with assms have "valid_handle w i" by (simp add: valid_call_def list_all_iff)
  with assms show "valid_handle (snd (run lib c cb w)) i" by (rule run_keeps_valid)
next
  fix h hnd
  assume a: "lookup (snd (run lib c cb w)) h = Some (OHandle hnd)
              \<and> handle_ptr hnd \<in> handle_ptr ` set (input_handles c)"
  then obtain i where i: "i \<in> set (input_handles c)" and e: "handle_ptr hnd = handle_ptr i" by auto
  with assms have vi: "valid_handle w i" by (simp add: valid_call_def list_all_iff)
  from footprint_object [OF vi handle_ptr_footprint] have "handle_ptr i \<le> highest (heap w)"
    by (auto dest: lookup_le_highest)
  moreover from run_handles_fresh [OF assms, of lib cb] a
  have "lookup w h = Some (OHandle hnd) \<or> highest (heap w) < handle_ptr hnd"
    unfolding handles_fresh_def by blast
  ultimately show "lookup w h = Some (OHandle hnd)"
    using e by simp
next
  show "valid_call (repeat_call n lib c cb w) c"
    using assms by (rule repeat_call_valid)
qed

theorem inputs_only_borrowed_witness:
  "valid_call boxed_world (MergeMertens_Process (MergeMertens 6) (VecMat 5))
   \<and> valid_handle (snd (run sample_lib (MergeMertens_Process (MergeMertens 6) (VecMat 5)) returning boxed_world))
        (HMergeMertens (MergeMertens 6))
   \<and> valid_handle (snd (run sample_lib (MergeMertens_Process (MergeMertens 6) (VecMat 5)) returning boxed_world))
        (HVecMat (VecMat 5))
   \<and> lookup (snd (run sample_lib (MergeMertens_Process (MergeMertens 6) (VecMat 5)) returning boxed_world)) 10
        = Some (OHandle (HMergeMertens (MergeMertens 6)))
   \<and> handle_ptr (HMergeMertens (MergeMertens 6))
        \<in> handle_ptr ` set (input_handles (MergeMertens_Process (MergeMertens 6) (VecMat 5)))
   \<and> lookup boxed_world 10 = Some (OHandle (HMergeMertens (MergeMertens 6)))
   \<and> valid_call (repeat_call 3 sample_lib (MergeMertens_Process (MergeMertens 6) (VecMat 5)) returning boxed_world)
        (MergeMertens_Process (MergeMertens 6) (VecMat 5))"
proof -
  let ?c = "MergeMertens_Process (MergeMertens 6) (VecMat 5)"
  have v: "valid_call boxed_world ?c"
    by (simp add: valid_call_def step_defs boxed_world_def sample_world_def)
  have l: "lookup (snd (run sample_lib ?c returning boxed_world)) 10
        = Some (OHandle (HMergeMertens (MergeMertens 6)))"
    by (simp add: MergeMertens_Process_Async_def step_defs sample_lib_def boxed_world_def
        sample_world_def returning_def)
  have i: "handle_ptr (HMergeMertens (MergeMertens 6)) \<in> handle_ptr ` set (input_handles ?c)"
    by simp
  note t = inputs_only_borrowed [OF v, of sample_lib returning 3]
  from t have "valid_handle (snd (run sample_lib ?c returning boxed_world)) (HMergeMertens (MergeMertens 6))"
    and "valid_handle (snd (run sample_lib ?c returning boxed_world)) (HVecMat (VecMat 5))"
    by simp_all
  moreover from t l i have "lookup boxed_world 10 = Some (OHandle (HMergeMertens (MergeMertens 6)))"
    by blast
  moreover from t have "valid_call (repeat_call 3 sample_lib ?c returning boxed_world) ?c"
    by blast
  ultimately show ?thesis using v l i by blast
qed

text \<open>
  C10. When the native call succeeds and the callback raises, the envelope catches the
  callback's exception: the entry point returns the failure status made from that exception
  at the catch site, and the callback has been invoked exactly once all the same.
\<close>

theorem callback_exception_is_trapped:
  assumes "valid_call w c" and "native_result lib c w = Inr out" and "\<forall>hs. cb hs = Some e"
  shows "\<exists>hs w'. run lib c cb w = (Returned (Some (status_of e (END_WRAP_line c))), w')
           \<and> callbacks w' = callbacks w @ [hs]"
  using assms(1)
proof (cases rule: run_cases [where lib = lib and cb = cb])
  case (failure e')
  with assms(2) show ?thesis by simp
next
  case (success out' hs w1)
  then show ?thesis
    using assms(3) by (simp add: callbacks_log_Callback callbacks_delivered)
qed

theorem callback_exception_is_trapped_witness:
  "valid_call sample_world (FastNlMeansDenoising (Mat 2))
   \<and> native_result sample_lib (FastNlMeansDenoising (Mat 2)) sample_world = Inr (OutMat (Pixels 1 1 0 [128]))
   \<and> (\<forall>hs. raising hs = Some (Unclassified ''callback failed''))
   \<and> (\<exists>hs w'. run sample_lib (FastNlMeansDenoising (Mat 2)) raising sample_world =
          (Returned (Some (CvStatus InternalError ''callback failed'' this_file 64)), w')
        \<and> callbacks w' = callbacks sample_world @ [hs])"
proof -
  have v: "valid_call sample_world (FastNlMeansDenoising (Mat 2))"
    by (simp add: valid_call_def step_defs sample_world_def)
  have n: "native_result sample_lib (FastNlMeansDenoising (Mat 2)) sample_world = Inr (OutMat (Pixels 1 1 0 [128]))"
    by (simp add: native_result_def pix_def step_defs sample_world_def sample_lib_def)
  have r: "\<forall>hs. raising hs = Some (Unclassified ''callback failed'')"
    by (simp add: raising_def)
  from callback_exception_is_trapped [OF v n r]
  have "\<exists>hs w'. run sample_lib (FastNlMeansDenoising (Mat 2)) raising sample_world =
          (Returned (Some (CvStatus InternalError ''callback failed'' this_file 64)), w')
        \<and> callbacks w' = callbacks sample_world @ [hs]"
    by simp
  with v n r show ?thesis by blast
qed

end
